theory Spec2Isabelle
  imports Complex_Main "HOL-Library.Multiset"
begin

unbundle bit_operations_syntax

section \<open>Data model\<close>

text \<open>
  The search code is C++. Its \<open>float\<close> and \<open>double\<close> values are modelled as
  \<open>real\<close> numbers (no rounding, no NaN, no infinities); its \<open>int\<close> values as
  \<open>int\<close>, with the conversions to and from \<open>size_t\<close> written out where
  the code mixes the two. A \<open>throw\<close> is a value \<open>Inl e\<close> of a sum type. A read
  or write that C++ leaves undefined (an index past the end of a \<open>std::vector\<close>, an
  iterator range that ends before it begins) is the value \<open>Inl Undefined_behaviour\<close>:
  it is not an exception of the program, and nothing is claimed about what happens next.
\<close>

datatype error =
    Out_of_range string
  | Runtime_error string
  | Length_error
  | Undefined_behaviour

text \<open>\<open>v[i]\<close> on a \<open>std::vector\<close>: no bounds check.\<close>

definition vector_at :: "'a list \<Rightarrow> int \<Rightarrow> error + 'a" where
  "vector_at v i =
     (if 0 \<le> i \<and> i < int (length v) then Inr (v ! nat i) else Inl Undefined_behaviour)"

text \<open>Conversions between the integer types of the code. A C++ \<open>int\<close> has 32 bits and
  wraps around in two's complement; a \<open>size_t\<close> has 64 bits and is unsigned.
  \<open>float_to_int\<close> is the conversion \<open>int(v)\<close> of a floating-point value: it drops
  the fraction, rounding towards zero.\<close>

definition wrap_int32 :: "int \<Rightarrow> int" where
  "wrap_int32 z = (z + 2 ^ 31) mod 2 ^ 32 - 2 ^ 31"

definition to_size_t :: "int \<Rightarrow> int" where
  "to_size_t z = z mod 2 ^ 64"

definition float_to_int :: "real \<Rightarrow> int" where
  "float_to_int v = (if 0 \<le> v then \<lfloor>v\<rfloor> else \<lceil>v\<rceil>)"

text \<open>Modelled from the spec: the trajectory struct (declared in \<open>common.h\<close>, which is
  not among the sources) is the record of a start pixel, a velocity, a likelihood, a flux
  and a number of observations. \<open>KBMOSearch.cpp\<close> names the fields \<open>x\<close>, \<open>y\<close>,
  \<open>x_vel\<close>, \<open>y_vel\<close>, \<open>lh\<close>, \<open>flux\<close>, \<open>obs_count\<close>; the first two are
  \<open>x_pix\<close> and \<open>y_pix\<close> here.\<close>

record Trajectory =
  x_pix :: int
  y_pix :: int
  x_vel :: real
  y_vel :: real
  lh :: real
  flux :: real
  obs_count :: int

text \<open>Modelled from the spec: RawImage (its class is not among the sources) is a grid of
  \<open>width\<close> by \<open>height\<close> floats. The pixels are held as one flat vector, the view that
  \<open>get_image().reshaped()\<close> and \<open>get_pixels()\<close> give; every image of one shape is
  flattened the same way.\<close>

record RawImage =
  width :: nat
  height :: nat
  pixels :: "real list"

text \<open>Modelled from the spec: LayeredImage (its class is not among the sources) is the
  triple of science, variance and mask images with an observation time; its width and
  height are those of its layers.\<close>

record LayeredImage =
  science :: RawImage
  variance :: RawImage
  mask :: RawImage
  obstime :: real

definition li_get_width :: "LayeredImage \<Rightarrow> nat" where
  "li_get_width img = width (science img)"

definition li_get_height :: "LayeredImage \<Rightarrow> nat" where
  "li_get_height img = height (science img)"

definition li_get_npixels :: "LayeredImage \<Rightarrow> nat" where
  "li_get_npixels img = width (science img) * height (science img)"

section \<open>ImageStack\<close>

text \<open>The one member that \<open>image_stack.cpp\<close> reads and writes.\<close>

record ImageStack =
  images :: "LayeredImage list"

text \<open>\<open>ImageStack::ImageStack(const std::vector<LayeredImage>& imgs) { images = imgs; }\<close>\<close>

definition ImageStack_init :: "LayeredImage list \<Rightarrow> ImageStack" where
  "ImageStack_init imgs = \<lparr>images = imgs\<rparr>"

text \<open>The simple getters, as \<open>ImageStack.h\<close> defines them: the size of the first
  image, or zero for an empty stack.\<close>

definition img_count :: "ImageStack \<Rightarrow> nat" where
  "img_count s = length (images s)"

definition get_width :: "ImageStack \<Rightarrow> nat" where
  "get_width s = (if images s \<noteq> [] then li_get_width (hd (images s)) else 0)"

definition get_height :: "ImageStack \<Rightarrow> nat" where
  "get_height s = (if images s \<noteq> [] then li_get_height (hd (images s)) else 0)"

definition get_npixels :: "ImageStack \<Rightarrow> nat" where
  "get_npixels s = (if images s \<noteq> [] then li_get_npixels (hd (images s)) else 0)"

text \<open>The three indexed accessors. The guard is \<open>index < 0 || index > images.size()\<close>;
  the second comparison is unsigned, and is reached with a non-negative index only.\<close>

definition index_guard :: "ImageStack \<Rightarrow> int \<Rightarrow> bool" where
  "index_guard s index \<longleftrightarrow> index < 0 \<or> index > int (length (images s))"

definition get_single_image :: "ImageStack \<Rightarrow> int \<Rightarrow> error + LayeredImage" where
  "get_single_image s index =
     (if index_guard s index then Inl (Out_of_range ''ImageStack index out of bounds.'')
      else vector_at (images s) index)"

definition get_obstime :: "ImageStack \<Rightarrow> int \<Rightarrow> error + real" where
  "get_obstime s index =
     (if index_guard s index then Inl (Out_of_range ''ImageStack index out of bounds.'')
      else (case vector_at (images s) index of
              Inl e \<Rightarrow> Inl e
            | Inr img \<Rightarrow> Inr (obstime img)))"

definition get_zeroed_time :: "ImageStack \<Rightarrow> int \<Rightarrow> error + real" where
  "get_zeroed_time s index =
     (if index_guard s index then Inl (Out_of_range ''ImageStack index out of bounds.'')
      else (case vector_at (images s) index of
              Inl e \<Rightarrow> Inl e
            | Inr img \<Rightarrow>
                (case vector_at (images s) 0 of
                   Inl e \<Rightarrow> Inl e
                 | Inr img0 \<Rightarrow> Inr (obstime img - obstime img0))))"

text \<open>The invariant the spec gives an ImageStack: every image has the width and the
  height of the first.\<close>

definition same_size :: "ImageStack \<Rightarrow> bool" where
  "same_size s \<longleftrightarrow>
     list_all (\<lambda>img. li_get_width img = get_width s \<and> li_get_height img = get_height s)
       (images s)"

subsection \<open>make_global_mask\<close>

text \<open>The constructor \<open>RawImage(w, h, value)\<close>: an image filled with one value
  (\<open>RawImage(w, h)\<close> followed by \<open>set_all(value)\<close> is the same image).\<close>

definition RawImage_init :: "nat \<Rightarrow> nat \<Rightarrow> real \<Rightarrow> RawImage" where
  "RawImage_init w h v = \<lparr>width = w, height = h, pixels = replicate (w * h) v\<rparr>"

text \<open>\<open>static_cast<int>\<close> of a \<open>float\<close> drops the fraction; the conversion is
  undefined when the result does not fit an \<open>int\<close>.\<close>

definition static_cast_int :: "real \<Rightarrow> error + int" where
  "static_cast_int v =
     (if - (2 ^ 31) \<le> float_to_int v \<and> float_to_int v < 2 ^ 31 then Inr (float_to_int v)
      else Inl Undefined_behaviour)"

text \<open>The body of the inner loop,
  \<open>if ((flags & static_cast<int>(imgMask[pixel])) != 0) counts[pixel]++;\<close>, and the inner
  loop over the pixels of one image. \<open>imgMask[pixel]\<close> is not bounds-checked.\<close>

definition count_pixel :: "int \<Rightarrow> real list \<Rightarrow> nat \<Rightarrow> error + int list \<Rightarrow> error + int list" where
  "count_pixel flags imgMask pixel acc =
     (case acc of
        Inl e \<Rightarrow> Inl e
      | Inr counts \<Rightarrow>
          (case vector_at imgMask (int pixel) of
             Inl e \<Rightarrow> Inl e
           | Inr m \<Rightarrow>
               (case static_cast_int m of
                  Inl e \<Rightarrow> Inl e
                | Inr mi \<Rightarrow>
                    Inr (if flags AND mi \<noteq> 0 then counts[pixel := counts ! pixel + 1]
                         else counts))))"

definition count_image :: "int \<Rightarrow> nat \<Rightarrow> LayeredImage \<Rightarrow> error + int list \<Rightarrow> error + int list" where
  "count_image flags npixels img acc =
     fold (count_pixel flags (pixels (mask img))) [0..<npixels] acc"

definition make_global_mask :: "ImageStack \<Rightarrow> int \<Rightarrow> int \<Rightarrow> error + RawImage" where
  "make_global_mask s flags threshold =
     (let npixels = get_npixels s;
          global_mask = RawImage_init (get_width s) (get_height s) 0
      in case fold (count_image flags npixels) (images s) (Inr (replicate npixels 0)) of
           Inl e \<Rightarrow> Inl e
         | Inr counts \<Rightarrow>
             Inr (global_mask\<lparr>pixels :=
                    fold (\<lambda>p global_m. global_m[p := (if counts ! p < threshold then 0 else 1)])
                      [0..<npixels] (pixels global_mask)\<rparr>))"

text \<open>The count that the spec's description of the global mask names: the number of
  images of the stack whose mask at pixel \<open>p\<close>, read as an integer, has a bit in common
  with \<open>flags\<close>.\<close>

definition flagged :: "int \<Rightarrow> nat \<Rightarrow> LayeredImage \<Rightarrow> bool" where
  "flagged flags p img \<longleftrightarrow> flags AND float_to_int (pixels (mask img) ! p) \<noteq> 0"

definition spec_masked_count :: "ImageStack \<Rightarrow> int \<Rightarrow> nat \<Rightarrow> int" where
  "spec_masked_count s flags p = int (length (filter (flagged flags p) (images s)))"


section \<open>TrajectoryList\<close>

record TrajectoryList =
  max_size :: int
  data_on_gpu :: bool
  cpu_list :: "Trajectory list"

definition get_trajectory :: "TrajectoryList \<Rightarrow> int \<Rightarrow> error + Trajectory" where
  "get_trajectory tlist index =
     (if index < 0 \<or> index > max_size tlist then Inl (Runtime_error ''Index out of bounds.'')
      else if data_on_gpu tlist then Inl (Runtime_error ''Data on GPU'')
      else vector_at (cpu_list tlist) index)"

text \<open>\<open>set_trajectory\<close> mutates the list: the model returns what the call did (an error
  or nothing) together with the list after the call.\<close>

definition set_trajectory ::
  "TrajectoryList \<Rightarrow> int \<Rightarrow> Trajectory \<Rightarrow> (error + unit) \<times> TrajectoryList" where
  "set_trajectory tlist index new_value =
     (if index < 0 \<or> index > max_size tlist then (Inl (Runtime_error ''Index out of bounds.''), tlist)
      else if data_on_gpu tlist then (Inl (Runtime_error ''Data on GPU''), tlist)
      else if index < int (length (cpu_list tlist))
        then (Inr (), tlist\<lparr>cpu_list := (cpu_list tlist)[nat index := new_value]\<rparr>)
      else (Inl Undefined_behaviour, tlist))"

definition get_list :: "TrajectoryList \<Rightarrow> error + Trajectory list" where
  "get_list tlist =
     (if data_on_gpu tlist then Inl (Runtime_error ''Data on GPU'') else Inr (cpu_list tlist))"

section \<open>KBMOSearch\<close>

text \<open>Modelled from the spec: the six coefficients of a barycentric correction (the
  struct is declared in \<open>common.h\<close>), as \<open>enable_corr\<close> and
  \<open>get_trajectory_position\<close> use them.\<close>

record BaryCorrection =
  dx :: real
  dxdx :: real
  dxdy :: real
  dy :: real
  dydx :: real
  dydy :: real

text \<open>The members of the search object that the functions below read or write:
  \<open>stack_times\<close> is \<open>stack.get_times()\<close>.\<close>

record KBMOSearch =
  stack_times :: "real list"
  use_corr :: bool
  bary_corrs :: "BaryCorrection list"
  search_list :: "Trajectory list"
  results :: "Trajectory list"

subsection \<open>sortResults\<close>

text \<open>The comparator handed to the sort: \<open>[](trajectory a, trajectory b) { return b.lh < a.lh; }\<close>\<close>

definition lh_greater :: "Trajectory \<Rightarrow> Trajectory \<Rightarrow> bool" where
  "lh_greater a b \<longleftrightarrow> lh b < lh a"

text \<open>\<open>__gnu_parallel::sort\<close> is the C++ library's, not the repository's: \<open>sortResults\<close>
  takes it as a parameter. What the library promises of a sort with a comparator that is a
  strict weak ordering is \<open>sort_contract\<close>: the result is a rearrangement of the input
  in which no element is followed by one that the comparator puts before it.\<close>

type_synonym sorter = "(Trajectory \<Rightarrow> Trajectory \<Rightarrow> bool) \<Rightarrow> Trajectory list \<Rightarrow> Trajectory list"

definition sortResults :: "sorter \<Rightarrow> KBMOSearch \<Rightarrow> KBMOSearch" where
  "sortResults sort_fn ks = ks\<lparr>results := sort_fn lh_greater (results ks)\<rparr>"

definition strict_weak_order :: "('a \<Rightarrow> 'a \<Rightarrow> bool) \<Rightarrow> bool" where
  "strict_weak_order cmp \<longleftrightarrow>
     (\<forall>a. \<not> cmp a a)
     \<and> (\<forall>a b c. cmp a b \<and> cmp b c \<longrightarrow> cmp a c)
     \<and> (\<forall>a b c. \<not> cmp a b \<and> \<not> cmp b c \<longrightarrow> \<not> cmp a c)"

definition sort_contract :: "sorter \<Rightarrow> bool" where
  "sort_contract sort_fn \<longleftrightarrow>
     (\<forall>cmp xs. strict_weak_order cmp \<longrightarrow>
        mset (sort_fn cmp xs) = mset xs
        \<and> sorted_wrt (\<lambda>a b. \<not> cmp b a) (sort_fn cmp xs))"

text \<open>What the library's sort does on a short range (at most 16 elements, far below the
  threshold of the parallel sort): a straight insertion sort. An element that the comparator
  puts before the first one moves to the front; any other element moves left past the
  elements that the comparator puts after it, and stops at the first one that it does not.\<close>

definition linear_insert :: "('a \<Rightarrow> 'a \<Rightarrow> bool) \<Rightarrow> 'a list \<Rightarrow> 'a \<Rightarrow> 'a list" where
  "linear_insert cmp sorted_prefix val =
     (case sorted_prefix of
        [] \<Rightarrow> [val]
      | first # _ \<Rightarrow>
          if cmp val first then val # sorted_prefix
          else rev (dropWhile (cmp val) (rev sorted_prefix)) @ val
                 # rev (takeWhile (cmp val) (rev sorted_prefix)))"

definition insertion_sort :: "('a \<Rightarrow> 'a \<Rightarrow> bool) \<Rightarrow> 'a list \<Rightarrow> 'a list" where
  "insertion_sort cmp xs = foldl (linear_insert cmp) [] xs"

text \<open>The order that the spec gives the result list: likelihood descending, and among
  results of equal likelihood \<open>obs_count\<close> descending, then \<open>y\<close>, \<open>x\<close>, \<open>vx\<close>, \<open>vy\<close>
  ascending. \<open>spec_tie_break a b\<close> holds when the tie-break puts \<open>a\<close> strictly before
  \<open>b\<close>; \<open>spec_order a b\<close> when \<open>a\<close> may stand before \<open>b\<close> in the list.\<close>

definition spec_tie_break :: "Trajectory \<Rightarrow> Trajectory \<Rightarrow> bool" where
  "spec_tie_break a b \<longleftrightarrow>
     obs_count a > obs_count b
     \<or> (obs_count a = obs_count b \<and> (y_pix a < y_pix b
     \<or> (y_pix a = y_pix b \<and> (x_pix a < x_pix b
     \<or> (x_pix a = x_pix b \<and> (x_vel a < x_vel b
     \<or> (x_vel a = x_vel b \<and> y_vel a < y_vel b)))))))"

definition spec_order :: "Trajectory \<Rightarrow> Trajectory \<Rightarrow> bool" where
  "spec_order a b \<longleftrightarrow> lh a > lh b \<or> (lh a = lh b \<and> \<not> spec_tie_break b a)"

subsection \<open>get_results\<close>

text \<open>The range constructor \<open>std::vector(first, last)\<close> on iterators into \<open>v\<close>: the
  elements from index \<open>first_ix\<close> up to, not including, \<open>last_ix\<close>. A range that leaves the vector, or that
  ends before it begins, is undefined.\<close>

definition vector_range :: "'a list \<Rightarrow> int \<Rightarrow> int \<Rightarrow> error + 'a list" where
  "vector_range v first_ix last_ix =
     (if 0 \<le> first_ix \<and> first_ix \<le> last_ix \<and> last_ix \<le> int (length v)
      then Inr (take (nat (last_ix - first_ix)) (drop (nat first_ix) v))
      else Inl Undefined_behaviour)"

text \<open>In \<open>start + count >= results.size()\<close> the sum is an \<open>int\<close> and is converted to
  \<open>size_t\<close> for the comparison; \<open>results.size() - start\<close> is computed in \<open>size_t\<close>
  and converted back to \<open>int\<close>. The test of \<open>start\<close> comes after the clamp, as in the
  source.\<close>

definition get_results :: "KBMOSearch \<Rightarrow> int \<Rightarrow> int \<Rightarrow> error + Trajectory list" where
  "get_results ks start count_arg =
     (let size = int (length (results ks));
          count_used = (if to_size_t (wrap_int32 (start + count_arg)) \<ge> size
                        then wrap_int32 (to_size_t (size - to_size_t start))
                        else count_arg)
      in if start < 0 then Inl (Runtime_error ''start must be 0 or greater'')
         else vector_range (results ks) start (start + count_used))"

subsection \<open>createCurves\<close>

text \<open>\<open>get_trajectory_position\<close>: the position (as floating-point numbers) of a
  trajectory at the time of image \<open>i\<close>.\<close>

definition get_trajectory_position ::
  "KBMOSearch \<Rightarrow> Trajectory \<Rightarrow> int \<Rightarrow> error + (real \<times> real)" where
  "get_trajectory_position ks t i =
     (case vector_at (stack_times ks) i of
        Inl e \<Rightarrow> Inl e
      | Inr time \<Rightarrow>
          if use_corr ks then
            (case vector_at (bary_corrs ks) i of
               Inl e \<Rightarrow> Inl e
             | Inr bc \<Rightarrow>
                 Inr (real_of_int (x_pix t) + time * x_vel t + dx bc
                        + real_of_int (x_pix t) * dxdx bc + real_of_int (y_pix t) * dxdy bc,
                      real_of_int (y_pix t) + time * y_vel t + dy bc
                        + real_of_int (x_pix t) * dydx bc + real_of_int (y_pix t) * dydy bc))
          else Inr (real_of_int (x_pix t) + time * x_vel t,
                    real_of_int (y_pix t) + time * y_vel t))"

text \<open>The pixel that \<open>createCurves\<close> reads in image \<open>i\<close>: the two arguments of its
  call of \<open>get_pixel\<close>.\<close>

definition curve_pixel :: "KBMOSearch \<Rightarrow> Trajectory \<Rightarrow> int \<Rightarrow> error + (int \<times> int)" where
  "curve_pixel ks t i =
     (if use_corr ks then
        (case get_trajectory_position ks t i of
           Inl e \<Rightarrow> Inl e
         | Inr pos \<Rightarrow> Inr (float_to_int (fst pos + 0.5), float_to_int (snd pos + 0.5)))
      else
        (case vector_at (stack_times ks) i of
           Inl e \<Rightarrow> Inl e
         | Inr time \<Rightarrow>
             Inr (x_pix t + float_to_int (time * x_vel t + 0.5),
                  y_pix t + float_to_int (time * y_vel t + 0.5))))"

text \<open>\<open>RawImage::get_pixel\<close> and the constant \<open>NO_DATA\<close> are not among the sources:
  \<open>createCurves\<close> takes them as parameters. The loop over the images stops at the first
  undefined read.\<close>

fun createCurves_loop ::
  "(RawImage \<Rightarrow> int \<Rightarrow> int \<Rightarrow> real) \<Rightarrow> real \<Rightarrow> KBMOSearch \<Rightarrow> Trajectory \<Rightarrow> int
     \<Rightarrow> RawImage list \<Rightarrow> error + real list" where
  "createCurves_loop get_pixel no_data ks t i [] = Inr []"
| "createCurves_loop get_pixel no_data ks t i (img # imgs) =
     (case curve_pixel ks t i of
        Inl e \<Rightarrow> Inl e
      | Inr p \<Rightarrow>
          (let pix_val = get_pixel img (fst p) (snd p);
               pix_val = (if pix_val = no_data then 0 else pix_val)
           in case createCurves_loop get_pixel no_data ks t (i + 1) imgs of
                Inl e \<Rightarrow> Inl e
              | Inr lightcurve \<Rightarrow> Inr (pix_val # lightcurve)))"

definition createCurves ::
  "(RawImage \<Rightarrow> int \<Rightarrow> int \<Rightarrow> real) \<Rightarrow> real \<Rightarrow> KBMOSearch \<Rightarrow> Trajectory
     \<Rightarrow> RawImage list \<Rightarrow> error + real list" where
  "createCurves get_pixel no_data ks t imgs = createCurves_loop get_pixel no_data ks t 0 imgs"


subsection \<open>createSearchList\<close>

text \<open>A trajectory as \<open>std::vector<trajectory>(n)\<close> creates it: every field zero.\<close>

definition zero_trajectory :: Trajectory where
  "zero_trajectory = \<lparr>x_pix = 0, y_pix = 0, x_vel = 0, y_vel = 0, lh = 0, flux = 0, obs_count = 0\<rparr>"

text \<open>The two loops that fill \<open>angles\<close> and \<open>velocities\<close>:
  \<open>for (int i = 0; i < n; ++i) v[i] = lo + float(i) * stepsize;\<close> on a vector of \<open>n\<close>
  zeros.\<close>

definition fill_steps :: "nat \<Rightarrow> real \<Rightarrow> real \<Rightarrow> real list" where
  "fill_steps n lo stepsize =
     fold (\<lambda>i v. v[i := lo + real i * stepsize]) [0..<n] (replicate n 0)"

text \<open>The body of the inner loop: the two assignments to
  \<open>search_list[a * velocity_steps + v]\<close>.\<close>

definition set_velocity ::
  "real list \<Rightarrow> real list \<Rightarrow> nat \<Rightarrow> nat \<Rightarrow> nat \<Rightarrow> Trajectory list \<Rightarrow> Trajectory list" where
  "set_velocity angles velocities velocity_steps a v sl =
     sl[a * velocity_steps + v :=
          (sl ! (a * velocity_steps + v))
            \<lparr>x_vel := cos (angles ! a) * velocities ! v,
             y_vel := sin (angles ! a) * velocities ! v\<rparr>]"

text \<open>A vector cannot be created with a negative size (the library throws), and the
  product \<open>angle_steps * velocity_steps\<close> is an \<open>int\<close>: where it overflows the
  behaviour is undefined. With zero steps the step size is a division by zero, which
  floating-point arithmetic does not trap; the value is never used.\<close>

definition createSearchList ::
  "KBMOSearch \<Rightarrow> int \<Rightarrow> int \<Rightarrow> real \<Rightarrow> real \<Rightarrow> real \<Rightarrow> real \<Rightarrow> error + KBMOSearch" where
  "createSearchList ks angle_steps velocity_steps min_ang max_ang min_vel max_vel =
     (if angle_steps < 0 \<or> velocity_steps < 0 then Inl Length_error
      else if angle_steps * velocity_steps \<ge> 2 ^ 31 then Inl Undefined_behaviour
      else
        (let ang_stepsize = (max_ang - min_ang) / real_of_int angle_steps;
             angles = fill_steps (nat angle_steps) min_ang ang_stepsize;
             vel_stepsize = (max_vel - min_vel) / real_of_int velocity_steps;
             velocities = fill_steps (nat velocity_steps) min_vel vel_stepsize;
             trajCount = nat (angle_steps * velocity_steps)
         in Inr (ks\<lparr>search_list :=
              fold (\<lambda>a. fold (set_velocity angles velocities (nat velocity_steps) a)
                           [0..<nat velocity_steps])
                [0..<nat angle_steps] (replicate trajCount zero_trajectory)\<rparr>)))"


section \<open>StampCreator\<close>

text \<open>\<open>STAMP_OTHER\<close> stands for any value of the enumeration's integer type that is not
  one of the three enumerators: the \<open>default\<close> branch of the \<open>switch\<close>.\<close>

datatype StampType = STAMP_SUM | STAMP_MEAN | STAMP_MEDIAN | STAMP_OTHER

text \<open>Modelled from the spec: the stamp parameters, the index of a pixel and the central
  moments of an image (declared in \<open>common.h\<close> and \<open>geom.h\<close>, which are not among
  the sources), with the fields that \<open>stamp_creator.cpp\<close> reads.\<close>

record StampParameters =
  radius :: int
  stamp_type :: StampType
  do_filtering :: bool
  center_thresh :: real
  peak_offset_x :: real
  peak_offset_y :: real
  m01_limit :: real
  m10_limit :: real
  m11_limit :: real
  m02_limit :: real
  m20_limit :: real

record Index =
  idx_i :: int
  idx_j :: int

record ImageMoments =
  m00 :: real
  m01 :: real
  m10 :: real
  m11 :: real
  m02 :: real
  m20 :: real

text \<open>What \<open>stamp_creator.cpp\<close> calls and the sources do not hold: the constant
  \<open>NO_DATA\<close>, the methods \<open>find_peak\<close>, \<open>find_central_moments\<close> and \<open>create_stamp\<close> of
  RawImage, the three co-adding functions, the position of a trajectory at a time, and the
  accelerator path \<open>get_coadded_stamps_gpu\<close> with its kernel. The functions of this
  section take them as one parameter.\<close>

record Externals =
  NO_DATA :: real
  find_peak :: "RawImage \<Rightarrow> bool \<Rightarrow> Index"
  find_central_moments :: "RawImage \<Rightarrow> ImageMoments"
  create_stamp :: "RawImage \<Rightarrow> real \<times> real \<Rightarrow> int \<Rightarrow> bool \<Rightarrow> RawImage"
  create_median_image :: "RawImage list \<Rightarrow> RawImage"
  create_mean_image :: "RawImage list \<Rightarrow> RawImage"
  create_summed_image :: "RawImage list \<Rightarrow> RawImage"
  get_x_pos :: "Trajectory \<Rightarrow> real \<Rightarrow> real"
  get_y_pos :: "Trajectory \<Rightarrow> real \<Rightarrow> real"
  get_coadded_stamps_gpu ::
    "ImageStack \<Rightarrow> Trajectory list \<Rightarrow> bool list list \<Rightarrow> StampParameters
       \<Rightarrow> error + RawImage list"

subsection \<open>create_stamps\<close>

text \<open>The loop over the images, from index \<open>i\<close> on; \<open>use_index[i]\<close> is read only when the
  vector is not empty, and then it has one entry for each image.\<close>

fun create_stamps_loop ::
  "Externals \<Rightarrow> ImageStack \<Rightarrow> Trajectory \<Rightarrow> int \<Rightarrow> bool \<Rightarrow> bool list \<Rightarrow> nat list
     \<Rightarrow> error + RawImage list" where
  "create_stamps_loop ext stack trj rad keep_no_data use_index [] = Inr []"
| "create_stamps_loop ext stack trj rad keep_no_data use_index (i # rest) =
     (if use_index = [] \<or> use_index ! i then
        (case get_zeroed_time stack (int i) of
           Inl e \<Rightarrow> Inl e
         | Inr time \<Rightarrow>
             (case get_single_image stack (int i) of
                Inl e \<Rightarrow> Inl e
              | Inr img \<Rightarrow>
                  (case create_stamps_loop ext stack trj rad keep_no_data use_index rest of
                     Inl e \<Rightarrow> Inl e
                   | Inr stamps \<Rightarrow>
                       Inr (create_stamp ext (science img)
                              (get_x_pos ext trj time, get_y_pos ext trj time) rad keep_no_data
                            # stamps))))
      else create_stamps_loop ext stack trj rad keep_no_data use_index rest)"

definition create_stamps ::
  "Externals \<Rightarrow> ImageStack \<Rightarrow> Trajectory \<Rightarrow> int \<Rightarrow> bool \<Rightarrow> bool list
     \<Rightarrow> error + RawImage list" where
  "create_stamps ext stack trj rad keep_no_data use_index =
     (if length use_index > 0 \<and> length use_index \<noteq> img_count stack
      then Inl (Runtime_error ''Wrong size use_index passed into create_stamps()'')
      else create_stamps_loop ext stack trj rad keep_no_data use_index [0..<img_count stack])"

subsection \<open>filter_stamp\<close>

text \<open>The sum of the first \<open>stamp_ppi\<close> pixels, as the loop
  \<open>for (int p = 0; p < stamp_ppi; ++p) pixel_sum += pixels[p];\<close> computes it. The reads
  are not bounds-checked.\<close>

definition sum_pixels :: "real list \<Rightarrow> int \<Rightarrow> error + real" where
  "sum_pixels pix stamp_ppi =
     (if stamp_ppi \<le> int (length pix)
      then Inr (fold (\<lambda>p pixel_sum. pixel_sum + pix ! p) [0..<nat stamp_ppi] 0)
      else Inl Undefined_behaviour)"

text \<open>The test \<open>center_val / pixel_sum < center_thresh\<close> on floating-point numbers, for a
  positive threshold. Floating-point division by zero does not trap: the quotient is
  \<open>+inf\<close>, \<open>-inf\<close> or NaN as \<open>center_val\<close> is positive, negative or zero, and of these
  only \<open>-inf\<close> is below the threshold. (A sum that starts from \<open>0.0\<close> is never the
  negative zero.)\<close>

definition ratio_below :: "real \<Rightarrow> real \<Rightarrow> real \<Rightarrow> bool" where
  "ratio_below center_val pixel_sum thresh \<longleftrightarrow>
     (if pixel_sum = 0 then center_val < 0 else center_val / pixel_sum < thresh)"

definition filter_stamp :: "Externals \<Rightarrow> RawImage \<Rightarrow> StampParameters \<Rightarrow> error + bool" where
  "filter_stamp ext img params =
     (let stamp_width = 2 * radius params + 1;
          stamp_ppi = stamp_width * stamp_width;
          idx = find_peak ext img True
      in if real_of_int \<bar>idx_i idx - radius params\<bar> \<ge> peak_offset_x params
            \<or> real_of_int \<bar>idx_j idx - radius params\<bar> \<ge> peak_offset_y params
         then Inr True
         else
           (case (if center_thresh params > 0 then
                    (case vector_at (pixels img) (idx_j idx * stamp_width + idx_i idx) of
                       Inl e \<Rightarrow> Inl e
                     | Inr center_val \<Rightarrow>
                         (case sum_pixels (pixels img) stamp_ppi of
                            Inl e \<Rightarrow> Inl e
                          | Inr pixel_sum \<Rightarrow>
                              Inr (ratio_below center_val pixel_sum (center_thresh params))))
                  else Inr False) of
              Inl e \<Rightarrow> Inl e
            | Inr True \<Rightarrow> Inr True
            | Inr False \<Rightarrow>
                (let moments = find_central_moments ext img
                 in Inr (\<bar>m01 moments\<bar> \<ge> m01_limit params \<or> \<bar>m10 moments\<bar> \<ge> m10_limit params
                         \<or> \<bar>m11 moments\<bar> \<ge> m11_limit params \<or> m02 moments \<ge> m02_limit params
                         \<or> m20 moments \<ge> m20_limit params))))"

text \<open>The rejection rule as the spec words it: the peak's offset from the centre
  \<^emph>\<open>exceeds\<close> \<open>peak_offset_x\<close> or \<open>peak_offset_y\<close>, or the peak holds less than
  \<open>center_thresh\<close> of the flux, or a moment reaches its limit.\<close>

definition spec_rejects :: "Externals \<Rightarrow> RawImage \<Rightarrow> StampParameters \<Rightarrow> bool" where
  "spec_rejects ext img params \<longleftrightarrow>
     (real_of_int \<bar>idx_i (find_peak ext img True) - radius params\<bar> > peak_offset_x params
        \<or> real_of_int \<bar>idx_j (find_peak ext img True) - radius params\<bar> > peak_offset_y params)
     \<or> (center_thresh params > 0
          \<and> ratio_below
               (pixels img ! nat (idx_j (find_peak ext img True) * (2 * radius params + 1)
                                   + idx_i (find_peak ext img True)))
               (sum_list (pixels img)) (center_thresh params))
     \<or> (\<bar>m01 (find_central_moments ext img)\<bar> \<ge> m01_limit params
          \<or> \<bar>m10 (find_central_moments ext img)\<bar> \<ge> m10_limit params
          \<or> \<bar>m11 (find_central_moments ext img)\<bar> \<ge> m11_limit params
          \<or> m02 (find_central_moments ext img) \<ge> m02_limit params
          \<or> m20 (find_central_moments ext img) \<ge> m20_limit params)"

subsection \<open>get_coadded_stamps\<close>

text \<open>One turn of the loop of \<open>get_coadded_stamps_cpu\<close>: first the co-added stamp of one
  trajectory, then the filter.\<close>

definition coadd_stamp ::
  "Externals \<Rightarrow> ImageStack \<Rightarrow> Trajectory \<Rightarrow> bool list \<Rightarrow> StampParameters
     \<Rightarrow> error + RawImage" where
  "coadd_stamp ext stack trj use_index params =
     (case create_stamps ext stack trj (radius params) True use_index of
        Inl e \<Rightarrow> Inl e
      | Inr stamps \<Rightarrow>
          (case stamp_type params of
             STAMP_MEDIAN \<Rightarrow> Inr (create_median_image ext stamps)
           | STAMP_MEAN \<Rightarrow> Inr (create_mean_image ext stamps)
           | STAMP_SUM \<Rightarrow> Inr (create_summed_image ext stamps)
           | STAMP_OTHER \<Rightarrow> Inl (Runtime_error ''Invalid stamp coadd type.'')))"

definition filtered_coadd ::
  "Externals \<Rightarrow> ImageStack \<Rightarrow> Trajectory \<Rightarrow> bool list \<Rightarrow> StampParameters
     \<Rightarrow> error + RawImage" where
  "filtered_coadd ext stack trj use_index params =
     (case coadd_stamp ext stack trj use_index params of
        Inl e \<Rightarrow> Inl e
      | Inr coadd \<Rightarrow>
          if do_filtering params then
            (case filter_stamp ext coadd params of
               Inl e \<Rightarrow> Inl e
             | Inr True \<Rightarrow> Inr (RawImage_init 1 1 (NO_DATA ext))
             | Inr False \<Rightarrow> Inr coadd)
          else Inr coadd)"

fun get_coadded_stamps_cpu_loop ::
  "Externals \<Rightarrow> ImageStack \<Rightarrow> Trajectory list \<Rightarrow> bool list list \<Rightarrow> StampParameters
     \<Rightarrow> nat list \<Rightarrow> error + RawImage list" where
  "get_coadded_stamps_cpu_loop ext stack t_array use_index_vect params [] = Inr []"
| "get_coadded_stamps_cpu_loop ext stack t_array use_index_vect params (i # rest) =
     (case vector_at use_index_vect (int i) of
        Inl e \<Rightarrow> Inl e
      | Inr use_index \<Rightarrow>
          (case filtered_coadd ext stack (t_array ! i) use_index params of
             Inl e \<Rightarrow> Inl e
           | Inr stamp \<Rightarrow>
               (case get_coadded_stamps_cpu_loop ext stack t_array use_index_vect params rest of
                  Inl e \<Rightarrow> Inl e
                | Inr stamps \<Rightarrow> Inr (stamp # stamps))))"

definition get_coadded_stamps_cpu ::
  "Externals \<Rightarrow> ImageStack \<Rightarrow> Trajectory list \<Rightarrow> bool list list \<Rightarrow> StampParameters
     \<Rightarrow> error + RawImage list" where
  "get_coadded_stamps_cpu ext stack t_array use_index_vect params =
     get_coadded_stamps_cpu_loop ext stack t_array use_index_vect params [0..<length t_array]"

text \<open>\<open>get_coadded_stamps\<close> returns what it logged and what the call did. \<open>HAVE_CUDA\<close>
  is fixed when the code is compiled: \<open>have_cuda\<close> is false for a build without
  accelerator support.\<close>

datatype log_entry = Log_info string | Log_warning string

definition get_coadded_stamps ::
  "bool \<Rightarrow> Externals \<Rightarrow> ImageStack \<Rightarrow> Trajectory list \<Rightarrow> bool list list \<Rightarrow> StampParameters
     \<Rightarrow> bool \<Rightarrow> log_entry list \<times> (error + RawImage list)" where
  "get_coadded_stamps have_cuda ext stack t_array use_index_vect params use_gpu =
     (if use_gpu then
        (if have_cuda then
           ([Log_info ''Performing co-adds on the GPU.''],
            get_coadded_stamps_gpu ext stack t_array use_index_vect params)
         else
           ([Log_warning ''GPU is not enabled. Performing co-adds on the CPU.''],
            get_coadded_stamps_cpu ext stack t_array use_index_vect params))
      else ([], get_coadded_stamps_cpu ext stack t_array use_index_vect params))"


section \<open>Theorems\<close>

subsection \<open>C6: the indexed accessors of ImageStack\<close>

text \<open>
  C6 says that \<open>get_single_image\<close>, \<open>get_obstime\<close> and \<open>get_zeroed_time\<close> raise the
  out-of-range error for every index outside \<open>[0, N)\<close>. The guard compares with
  \<open>>\<close> where \<open>>=\<close> is needed: at \<open>index = N\<close> none of the three raises, and each
  reads \<open>images[N]\<close>, one element past the end of the vector. The error is raised exactly
  for \<open>index < 0\<close> and for \<open>index > N\<close>.
\<close>

theorem accessors_at_size_do_not_raise:
  "get_single_image s (int (length (images s))) = Inl Undefined_behaviour
   \<and> get_obstime s (int (length (images s))) = Inl Undefined_behaviour
   \<and> get_zeroed_time s (int (length (images s))) = Inl Undefined_behaviour
   \<and> (get_single_image s index = Inl (Out_of_range ''ImageStack index out of bounds.'')
        \<longleftrightarrow> index < 0 \<or> int (length (images s)) < index)"
  by (simp add: get_single_image_def get_obstime_def get_zeroed_time_def index_guard_def
      vector_at_def)

subsection \<open>C7: a TrajectoryList whose data is on the accelerator\<close>

text \<open>
  C7: while \<open>data_on_gpu\<close> is set, \<open>get_trajectory\<close>, \<open>set_trajectory\<close> and
  \<open>get_list\<close> each throw a runtime error, whatever the index and the value, and the
  list after the failed \<open>set_trajectory\<close> is the list before it.
\<close>

theorem on_gpu_access_raises:
  assumes "data_on_gpu tlist"
  shows "(\<exists>msg. get_trajectory tlist index = Inl (Runtime_error msg))
       \<and> (\<exists>msg. set_trajectory tlist index v = (Inl (Runtime_error msg), tlist))
       \<and> (\<exists>msg. get_list tlist = Inl (Runtime_error msg))"
  using assms by (simp add: get_trajectory_def set_trajectory_def get_list_def)

theorem on_gpu_access_raises_witness:
  "data_on_gpu \<lparr>max_size = 1, data_on_gpu = True,
      cpu_list = [\<lparr>x_pix = 3, y_pix = 4, x_vel = 1, y_vel = 0, lh = 10, flux = 2, obs_count = 5\<rparr>]\<rparr>
   \<and> (\<exists>msg. get_trajectory \<lparr>max_size = 1, data_on_gpu = True,
      cpu_list = [\<lparr>x_pix = 3, y_pix = 4, x_vel = 1, y_vel = 0, lh = 10, flux = 2, obs_count = 5\<rparr>]\<rparr> 0
        = Inl (Runtime_error msg))
   \<and> (\<exists>msg. set_trajectory \<lparr>max_size = 1, data_on_gpu = True,
      cpu_list = [\<lparr>x_pix = 3, y_pix = 4, x_vel = 1, y_vel = 0, lh = 10, flux = 2, obs_count = 5\<rparr>]\<rparr> 0
        \<lparr>x_pix = 0, y_pix = 0, x_vel = 0, y_vel = 0, lh = 0, flux = 0, obs_count = 0\<rparr>
        = (Inl (Runtime_error msg), \<lparr>max_size = 1, data_on_gpu = True,
      cpu_list = [\<lparr>x_pix = 3, y_pix = 4, x_vel = 1, y_vel = 0, lh = 10, flux = 2, obs_count = 5\<rparr>]\<rparr>))
   \<and> (\<exists>msg. get_list \<lparr>max_size = 1, data_on_gpu = True,
      cpu_list = [\<lparr>x_pix = 3, y_pix = 4, x_vel = 1, y_vel = 0, lh = 10, flux = 2, obs_count = 5\<rparr>]\<rparr>
        = Inl (Runtime_error msg))"
proof -
  let ?tl = "\<lparr>max_size = 1, data_on_gpu = True,
      cpu_list = [\<lparr>x_pix = 3, y_pix = 4, x_vel = 1, y_vel = 0, lh = 10, flux = 2, obs_count = 5\<rparr>]\<rparr>"
  have h: "data_on_gpu ?tl" by simp
  from on_gpu_access_raises [OF h] h show ?thesis by blast
qed

subsection \<open>C8: the constructor of ImageStack and the shared image size\<close>

text \<open>
  C8 says that every ImageStack holds images of one width and height, and that building a
  stack from images of different sizes fails. The constructor copies the vector and checks
  nothing: given a 1 by 1 image and a 2 by 2 image it returns a stack that holds both, and
  the invariant \<open>same_size\<close> is false of it.
\<close>

theorem ImageStack_init_keeps_mismatched_images:
  "images (ImageStack_init
      [\<lparr>science = \<lparr>width = 1, height = 1, pixels = [0]\<rparr>,
        variance = \<lparr>width = 1, height = 1, pixels = [1]\<rparr>,
        mask = \<lparr>width = 1, height = 1, pixels = [0]\<rparr>, obstime = 0\<rparr>,
       \<lparr>science = \<lparr>width = 2, height = 2, pixels = [0, 0, 0, 0]\<rparr>,
        variance = \<lparr>width = 2, height = 2, pixels = [1, 1, 1, 1]\<rparr>,
        mask = \<lparr>width = 2, height = 2, pixels = [0, 0, 0, 0]\<rparr>, obstime = 1\<rparr>])
    = [\<lparr>science = \<lparr>width = 1, height = 1, pixels = [0]\<rparr>,
        variance = \<lparr>width = 1, height = 1, pixels = [1]\<rparr>,
        mask = \<lparr>width = 1, height = 1, pixels = [0]\<rparr>, obstime = 0\<rparr>,
       \<lparr>science = \<lparr>width = 2, height = 2, pixels = [0, 0, 0, 0]\<rparr>,
        variance = \<lparr>width = 2, height = 2, pixels = [1, 1, 1, 1]\<rparr>,
        mask = \<lparr>width = 2, height = 2, pixels = [0, 0, 0, 0]\<rparr>, obstime = 1\<rparr>]
   \<and> \<not> same_size (ImageStack_init
      [\<lparr>science = \<lparr>width = 1, height = 1, pixels = [0]\<rparr>,
        variance = \<lparr>width = 1, height = 1, pixels = [1]\<rparr>,
        mask = \<lparr>width = 1, height = 1, pixels = [0]\<rparr>, obstime = 0\<rparr>,
       \<lparr>science = \<lparr>width = 2, height = 2, pixels = [0, 0, 0, 0]\<rparr>,
        variance = \<lparr>width = 2, height = 2, pixels = [1, 1, 1, 1]\<rparr>,
        mask = \<lparr>width = 2, height = 2, pixels = [0, 0, 0, 0]\<rparr>, obstime = 1\<rparr>])"
  by (simp add: ImageStack_init_def same_size_def get_width_def get_height_def
      li_get_width_def li_get_height_def)

subsection \<open>C10: get_results\<close>

lemma wrap_int32_id: "- (2 ^ 31) \<le> z \<Longrightarrow> z < 2 ^ 31 \<Longrightarrow> wrap_int32 z = z"
  by (simp add: wrap_int32_def)

lemma wrap_int32_over:
  assumes "2 ^ 31 \<le> z" and "z < 2 ^ 32"
  shows "wrap_int32 z = z - 2 ^ 32"
proof -
  have "(z + 2 ^ 31) mod 2 ^ 32 = (z + 2 ^ 31 - 2 ^ 32) mod 2 ^ 32"
    by (rule minus_mod_self2 [symmetric])
  also have "\<dots> = z + 2 ^ 31 - 2 ^ 32"
    using assms by (intro mod_pos_pos_trivial) simp_all
  finally show ?thesis
    by (simp add: wrap_int32_def)
qed

lemma to_size_t_id: "0 \<le> z \<Longrightarrow> z < 2 ^ 64 \<Longrightarrow> to_size_t z = z"
  by (simp add: to_size_t_def)

lemma to_size_t_neg:
  assumes "- (2 ^ 64) \<le> z" and "z < 0"
  shows "to_size_t z = z + 2 ^ 64"
proof -
  have "z mod 2 ^ 64 = (z + 2 ^ 64) mod 2 ^ 64"
    by (rule mod_add_self2 [symmetric])
  also have "\<dots> = z + 2 ^ 64"
    using assms by (intro mod_pos_pos_trivial) simp_all
  finally show ?thesis
    by (simp add: to_size_t_def)
qed

lemma get_results_throws_iff:
  "get_results ks start count_arg = Inl (Runtime_error ''start must be 0 or greater'')
     \<longleftrightarrow> start < 0"
  by (simp add: get_results_def Let_def vector_range_def)

lemma get_results_slice:
  assumes S: "int (length (results ks)) < 2 ^ 31"
    and c: "0 \<le> count_arg" "count_arg < 2 ^ 31"
    and s: "0 \<le> start" "start \<le> int (length (results ks))"
  shows "get_results ks start count_arg =
     Inr (take (nat (min count_arg (int (length (results ks)) - start)))
            (drop (nat start) (results ks)))"
proof (cases "start + count_arg < 2 ^ 31")
  case True
  then have w: "wrap_int32 (start + count_arg) = start + count_arg"
    using c s by (simp add: wrap_int32_id)
  have t: "to_size_t (start + count_arg) = start + count_arg"
    using True c s by (simp add: to_size_t_id)
  have k: "wrap_int32 (to_size_t (int (length (results ks)) - to_size_t start))
      = int (length (results ks)) - start"
    using S s by (simp add: to_size_t_id wrap_int32_id)
  show ?thesis
    using s c by (auto simp add: get_results_def Let_def w t k vector_range_def min_def)
next
  case False
  then have over: "2 ^ 31 \<le> start + count_arg" "start + count_arg < 2 ^ 32"
    using c s S by simp_all
  then have w: "wrap_int32 (start + count_arg) = start + count_arg - 2 ^ 32"
    by (rule wrap_int32_over)
  have t: "to_size_t (start + count_arg - 2 ^ 32) = start + count_arg - 2 ^ 32 + 2 ^ 64"
    using over by (intro to_size_t_neg) simp_all
  have tw: "to_size_t (wrap_int32 (start + count_arg)) = start + count_arg - 2 ^ 32 + 2 ^ 64"
    by (simp only: w t)
  have k: "wrap_int32 (to_size_t (int (length (results ks)) - to_size_t start))
      = int (length (results ks)) - start"
    using S s by (simp add: to_size_t_id wrap_int32_id)
  have big: "int (length (results ks)) \<le> start + count_arg - 2 ^ 32 + 2 ^ 64"
    using over S by simp
  have m: "min count_arg (int (length (results ks)) - start) = int (length (results ks)) - start"
    using over S by simp
  show ?thesis
    using s big by (simp add: get_results_def Let_def tw k vector_range_def m)
qed

text \<open>
  C10 as the code has it. \<open>get_results\<close> throws its runtime error exactly when \<open>start\<close>
  is negative. For a list of \<open>S\<close> results, \<open>0 \<le> start \<le> S\<close> and a count that is not
  negative, it returns the slice that begins at \<open>start\<close> and has \<open>min count (S - start)\<close>
  elements: a count that runs over the end is clamped to the end. (The arguments are C++
  \<open>int\<close>s and the list has fewer than \<open>2 ^ 31\<close> elements.)
\<close>

theorem get_results_clamps:
  assumes "int (length (results ks)) < 2 ^ 31"
    and "- (2 ^ 31) \<le> count_arg" and "count_arg < 2 ^ 31"
  shows "(get_results ks start count_arg = Inl (Runtime_error ''start must be 0 or greater'')
            \<longleftrightarrow> start < 0)
       \<and> (0 \<le> start \<and> start \<le> int (length (results ks)) \<and> 0 \<le> count_arg \<longrightarrow>
            get_results ks start count_arg =
              Inr (take (nat (min count_arg (int (length (results ks)) - start)))
                     (drop (nat start) (results ks))))"
  using assms get_results_throws_iff [of ks start count_arg]
    get_results_slice [of ks count_arg start]
  by blast

theorem get_results_clamps_witness:
  "int (length (results \<lparr>stack_times = [], use_corr = False, bary_corrs = [], search_list = [], results = [\<lparr>x_pix = 3, y_pix = 4, x_vel = 1, y_vel = 0, lh = 10, flux = 2, obs_count = 1\<rparr>, \<lparr>x_pix = 3, y_pix = 4, x_vel = 1, y_vel = 0, lh = 10, flux = 2, obs_count = 2\<rparr>]\<rparr>)) < 2 ^ 31
   \<and> - (2 ^ 31) \<le> (5 :: int) \<and> (5 :: int) < 2 ^ 31
   \<and> (0 :: int) \<le> 1 \<and> 1 \<le> int (length (results \<lparr>stack_times = [], use_corr = False, bary_corrs = [], search_list = [], results = [\<lparr>x_pix = 3, y_pix = 4, x_vel = 1, y_vel = 0, lh = 10, flux = 2, obs_count = 1\<rparr>, \<lparr>x_pix = 3, y_pix = 4, x_vel = 1, y_vel = 0, lh = 10, flux = 2, obs_count = 2\<rparr>]\<rparr>))
   \<and> (0 :: int) \<le> 5
   \<and> get_results \<lparr>stack_times = [], use_corr = False, bary_corrs = [], search_list = [], results = [\<lparr>x_pix = 3, y_pix = 4, x_vel = 1, y_vel = 0, lh = 10, flux = 2, obs_count = 1\<rparr>, \<lparr>x_pix = 3, y_pix = 4, x_vel = 1, y_vel = 0, lh = 10, flux = 2, obs_count = 2\<rparr>]\<rparr> 1 5 = Inr [\<lparr>x_pix = 3, y_pix = 4, x_vel = 1, y_vel = 0, lh = 10, flux = 2, obs_count = 2\<rparr>]
   \<and> get_results \<lparr>stack_times = [], use_corr = False, bary_corrs = [], search_list = [], results = [\<lparr>x_pix = 3, y_pix = 4, x_vel = 1, y_vel = 0, lh = 10, flux = 2, obs_count = 1\<rparr>, \<lparr>x_pix = 3, y_pix = 4, x_vel = 1, y_vel = 0, lh = 10, flux = 2, obs_count = 2\<rparr>]\<rparr> (- 1) 5
       = Inl (Runtime_error ''start must be 0 or greater'')"
proof -
  let ?ks = "\<lparr>stack_times = [], use_corr = False, bary_corrs = [], search_list = [], results = [\<lparr>x_pix = 3, y_pix = 4, x_vel = 1, y_vel = 0, lh = 10, flux = 2, obs_count = 1\<rparr>, \<lparr>x_pix = 3, y_pix = 4, x_vel = 1, y_vel = 0, lh = 10, flux = 2, obs_count = 2\<rparr>]\<rparr>"
  have h: "int (length (results ?ks)) < 2 ^ 31" "- (2 ^ 31) \<le> (5 :: int)" "(5 :: int) < 2 ^ 31"
    by simp_all
  from get_results_clamps [OF h, of 1] get_results_clamps [OF h, of "- 1"]
  show ?thesis by simp
qed

text \<open>
  C10 as stated gives every call with \<open>0 \<le> start \<le> S\<close> a slice of \<open>min count (S - start)\<close>
  elements. With one stored result, \<open>start = 0\<close> and \<open>count = - 1\<close> the sum
  \<open>start + count\<close> is \<open>- 1\<close>, which the comparison with \<open>results.size()\<close> reads as the
  largest \<open>size_t\<close>; the count is clamped to \<open>1\<close> and the call returns the whole list,
  not a slice of \<open>min (- 1) 1\<close> elements.
\<close>

theorem get_results_negative_count_counterexample:
  "get_results \<lparr>stack_times = [], use_corr = False, bary_corrs = [], search_list = [], results = [\<lparr>x_pix = 3, y_pix = 4, x_vel = 1, y_vel = 0, lh = 10, flux = 2, obs_count = 1\<rparr>]\<rparr> 0 (- 1) = Inr [\<lparr>x_pix = 3, y_pix = 4, x_vel = 1, y_vel = 0, lh = 10, flux = 2, obs_count = 1\<rparr>]
   \<and> int (length [\<lparr>x_pix = 3, y_pix = 4, x_vel = 1, y_vel = 0, lh = 10, flux = 2, obs_count = 1\<rparr>]) \<noteq> min (- 1) (int (length (results \<lparr>stack_times = [], use_corr = False, bary_corrs = [], search_list = [], results = [\<lparr>x_pix = 3, y_pix = 4, x_vel = 1, y_vel = 0, lh = 10, flux = 2, obs_count = 1\<rparr>]\<rparr>)) - 0)"
  by (simp add: get_results_def wrap_int32_def to_size_t_def vector_range_def)

subsection \<open>C1: the order of the sorted results\<close>

lemma mset_linear_insert: "mset (linear_insert cmp xs v) = add_mset v (mset xs)"
proof (cases xs)
  case Nil
  then show ?thesis by (simp add: linear_insert_def)
next
  case (Cons first rest)
  have "mset (rev (dropWhile (cmp v) (rev xs))) + mset (rev (takeWhile (cmp v) (rev xs)))
      = mset (takeWhile (cmp v) (rev xs) @ dropWhile (cmp v) (rev xs))"
    by (simp only: mset_rev mset_append add.commute)
  also have "\<dots> = mset xs"
    by (simp only: takeWhile_dropWhile_id mset_rev)
  finally show ?thesis
    using Cons by (simp add: linear_insert_def)
qed

lemma sorted_linear_insert:
  assumes swo: "strict_weak_order cmp"
    and srt: "sorted_wrt (\<lambda>a b. \<not> cmp b a) xs"
  shows "sorted_wrt (\<lambda>a b. \<not> cmp b a) (linear_insert cmp xs v)"
proof (cases xs)
  case Nil
  then show ?thesis by (simp add: linear_insert_def)
next
  case (Cons first rest)
  have irrefl: "\<not> cmp a a" for a
    using swo by (simp add: strict_weak_order_def)
  have trans: "cmp a b \<Longrightarrow> cmp b c \<Longrightarrow> cmp a c" for a b c
    using swo unfolding strict_weak_order_def by blast
  have ntrans: "\<not> cmp a b \<Longrightarrow> \<not> cmp b c \<Longrightarrow> \<not> cmp a c" for a b c
    using swo unfolding strict_weak_order_def by blast
  show ?thesis
  proof (cases "cmp v first")
    case True
    have "\<not> cmp b v" if "b \<in> set xs" for b
    proof
      assume "cmp b v"
      then have bf: "cmp b first" using True trans by blast
      from that Cons have "b = first \<or> b \<in> set rest" by simp
      then show False
      proof
        assume "b = first" with bf irrefl show False by simp
      next
        assume "b \<in> set rest"
        with srt Cons have "\<not> cmp b first" by simp
        with bf show False by simp
      qed
    qed
    with srt True Cons show ?thesis
      by (simp add: linear_insert_def)
  next
    case False
    define tw where "tw = takeWhile (cmp v) (rev xs)"
    define dw where "dw = dropWhile (cmp v) (rev xs)"
    have split: "rev xs = tw @ dw"
      by (simp add: tw_def dw_def)
    then have xs_eq: "xs = rev dw @ rev tw"
      by (metis rev_append rev_rev_ident)
    have res: "linear_insert cmp xs v = rev dw @ v # rev tw"
      using False Cons by (simp add: linear_insert_def tw_def dw_def)
    from srt xs_eq have s1: "sorted_wrt (\<lambda>a b. \<not> cmp b a) (rev dw)"
      and s2: "sorted_wrt (\<lambda>a b. \<not> cmp b a) (rev tw)"
      and s3: "\<forall>a\<in>set dw. \<forall>b\<in>set tw. \<not> cmp b a"
      by (simp_all add: sorted_wrt_append)
    have after: "\<not> cmp b v" if "b \<in> set tw" for b
    proof
      assume bv: "cmp b v"
      from that have "cmp v b" unfolding tw_def by (rule set_takeWhileD [THEN conjunct2])
      with bv have "cmp v v" using trans by blast
      with irrefl show False by simp
    qed
    have before: "\<not> cmp v a" if "a \<in> set dw" for a
    proof (cases dw)
      case Nil
      with that show ?thesis by simp
    next
      case (Cons h dw')
      have nh: "\<not> cmp v h"
        using Cons hd_dropWhile [of "cmp v" "rev xs"] unfolding dw_def by fastforce
      from that Cons have "a = h \<or> a \<in> set dw'" by simp
      then show ?thesis
      proof
        assume "a = h" with nh show ?thesis by simp
      next
        assume "a \<in> set dw'"
        moreover from s1 Cons have "sorted_wrt (\<lambda>a b. \<not> cmp b a) (rev dw' @ [h])" by simp
        ultimately have "\<not> cmp h a" by (simp add: sorted_wrt_append)
        with nh show ?thesis using ntrans by blast
      qed
    qed
    show ?thesis
      unfolding res using s1 s2 s3 after before by (simp add: sorted_wrt_append)
  qed
qed

lemma foldl_linear_insert_mset:
  "mset (foldl (linear_insert cmp) acc xs) = mset acc + mset xs"
  by (induction xs arbitrary: acc) (simp_all add: mset_linear_insert)

lemma foldl_linear_insert_sorted:
  "strict_weak_order cmp \<Longrightarrow> sorted_wrt (\<lambda>a b. \<not> cmp b a) acc
     \<Longrightarrow> sorted_wrt (\<lambda>a b. \<not> cmp b a) (foldl (linear_insert cmp) acc xs)"
  by (induction xs arbitrary: acc) (simp_all add: sorted_linear_insert)

lemma insertion_sort_contract: "sort_contract insertion_sort"
  unfolding sort_contract_def insertion_sort_def
  by (simp add: foldl_linear_insert_mset foldl_linear_insert_sorted)

lemma lh_greater_strict_weak_order: "strict_weak_order lh_greater"
  unfolding strict_weak_order_def lh_greater_def by auto

text \<open>
  C1 as the code has it. The comparator of \<open>sortResults\<close> reads \<open>lh\<close> and nothing else.
  With any sort that keeps the library's contract, the stored results after the call are a
  rearrangement of the results before it in which the likelihood never increases from one
  result to a later one. The order of results with equal likelihood is left to the sort.
\<close>

theorem sortResults_orders_by_lh:
  assumes "sort_contract sort_fn"
  shows "sorted_wrt (\<lambda>a b. lh a \<ge> lh b) (results (sortResults sort_fn ks))
       \<and> mset (results (sortResults sort_fn ks)) = mset (results ks)"
proof -
  from assms lh_greater_strict_weak_order
  have m: "mset (sort_fn lh_greater (results ks)) = mset (results ks)"
    and s: "sorted_wrt (\<lambda>a b. \<not> lh_greater b a) (sort_fn lh_greater (results ks))"
    unfolding sort_contract_def by blast+
  have "(\<lambda>a b. \<not> lh_greater b a) = (\<lambda>a b. lh a \<ge> lh b)"
    by (auto simp add: lh_greater_def fun_eq_iff)
  with s m show ?thesis
    by (simp add: sortResults_def)
qed

theorem sortResults_orders_by_lh_witness:
  "sort_contract insertion_sort
   \<and> sorted_wrt (\<lambda>a b. lh a \<ge> lh b)
       (results (sortResults insertion_sort \<lparr>stack_times = [], use_corr = False, bary_corrs = [], search_list = [], results = [\<lparr>x_pix = 3, y_pix = 4, x_vel = 1, y_vel = 0, lh = 10, flux = 2, obs_count = 1\<rparr>, \<lparr>x_pix = 3, y_pix = 4, x_vel = 1, y_vel = 0, lh = 12, flux = 2, obs_count = 2\<rparr>]\<rparr>))
   \<and> mset (results (sortResults insertion_sort \<lparr>stack_times = [], use_corr = False, bary_corrs = [], search_list = [], results = [\<lparr>x_pix = 3, y_pix = 4, x_vel = 1, y_vel = 0, lh = 10, flux = 2, obs_count = 1\<rparr>, \<lparr>x_pix = 3, y_pix = 4, x_vel = 1, y_vel = 0, lh = 12, flux = 2, obs_count = 2\<rparr>]\<rparr>))
       = mset (results \<lparr>stack_times = [], use_corr = False, bary_corrs = [], search_list = [], results = [\<lparr>x_pix = 3, y_pix = 4, x_vel = 1, y_vel = 0, lh = 10, flux = 2, obs_count = 1\<rparr>, \<lparr>x_pix = 3, y_pix = 4, x_vel = 1, y_vel = 0, lh = 12, flux = 2, obs_count = 2\<rparr>]\<rparr>)"
  using sortResults_orders_by_lh [OF insertion_sort_contract] insertion_sort_contract
  by blast

text \<open>
  C1 as stated also orders results of equal likelihood: \<open>obs_count\<close> descending first.
  Two results with the same likelihood, the one with \<open>obs_count = 1\<close> stored before the one
  with \<open>obs_count = 2\<close>: the comparator answers false for the pair in either order, the
  insertion sort that the library runs on a short range moves nothing, and the sorted list
  has \<open>obs_count\<close> ascending.
\<close>

theorem sortResults_tie_break_counterexample:
  "results (sortResults insertion_sort \<lparr>stack_times = [], use_corr = False, bary_corrs = [], search_list = [], results = [\<lparr>x_pix = 3, y_pix = 4, x_vel = 1, y_vel = 0, lh = 10, flux = 2, obs_count = 1\<rparr>, \<lparr>x_pix = 3, y_pix = 4, x_vel = 1, y_vel = 0, lh = 10, flux = 2, obs_count = 2\<rparr>]\<rparr>)
     = [\<lparr>x_pix = 3, y_pix = 4, x_vel = 1, y_vel = 0, lh = 10, flux = 2, obs_count = 1\<rparr>, \<lparr>x_pix = 3, y_pix = 4, x_vel = 1, y_vel = 0, lh = 10, flux = 2, obs_count = 2\<rparr>]
   \<and> \<not> sorted_wrt spec_order
       (results (sortResults insertion_sort \<lparr>stack_times = [], use_corr = False, bary_corrs = [], search_list = [], results = [\<lparr>x_pix = 3, y_pix = 4, x_vel = 1, y_vel = 0, lh = 10, flux = 2, obs_count = 1\<rparr>, \<lparr>x_pix = 3, y_pix = 4, x_vel = 1, y_vel = 0, lh = 10, flux = 2, obs_count = 2\<rparr>]\<rparr>))"
  by (simp add: sortResults_def insertion_sort_def linear_insert_def lh_greater_def
      spec_order_def spec_tie_break_def)

subsection \<open>C3: the pixel that createCurves samples\<close>

text \<open>
  C3 says that the pixel sampled in image \<open>i\<close> is the predicted position rounded to the
  nearest pixel, also where a coordinate is negative. The code adds \<open>0.5\<close> and converts
  to \<open>int\<close>, which rounds towards zero, not down. First case: \<open>x = 10\<close>, \<open>vx = - 1.75\<close>,
  time \<open>1\<close>; the predicted position is \<open>8.25\<close>, the nearest pixel is \<open>8\<close>, the code
  samples \<open>10 + int(- 1.25) = 9\<close>, and the branch for barycentric corrections (with all
  corrections zero) samples \<open>int(8.75) = 8\<close>. Second case: \<open>x = 0\<close>, \<open>vx = - 0.75\<close>; the
  predicted position is \<open>- 0.75\<close>, the nearest pixel is \<open>- 1\<close> (outside the image), the
  code samples pixel \<open>0\<close>.
\<close>

theorem createCurves_rounds_towards_zero:
  "curve_pixel \<lparr>stack_times = [0, 1], use_corr = False, bary_corrs = [], search_list = [], results = []\<rparr>
      \<lparr>x_pix = 10, y_pix = 10, x_vel = - 1.75, y_vel = 0, lh = 0, flux = 0, obs_count = 0\<rparr> 1
     = Inr (9, 10)
   \<and> (round (10 + (- 1.75) * 1 :: real), round (10 + 0 * 1 :: real)) = (8, 10)
   \<and> curve_pixel \<lparr>stack_times = [0, 1], use_corr = True, bary_corrs = [\<lparr>dx = 0, dxdx = 0, dxdy = 0, dy = 0, dydx = 0, dydy = 0\<rparr>, \<lparr>dx = 0, dxdx = 0, dxdy = 0, dy = 0, dydx = 0, dydy = 0\<rparr>], search_list = [], results = []\<rparr>
      \<lparr>x_pix = 10, y_pix = 10, x_vel = - 1.75, y_vel = 0, lh = 0, flux = 0, obs_count = 0\<rparr> 1
     = Inr (8, 10)
   \<and> curve_pixel \<lparr>stack_times = [0, 1], use_corr = False, bary_corrs = [], search_list = [], results = []\<rparr>
      \<lparr>x_pix = 0, y_pix = 10, x_vel = - 0.75, y_vel = 0, lh = 0, flux = 0, obs_count = 0\<rparr> 1
     = Inr (0, 10)
   \<and> (round (0 + (- 0.75) * 1 :: real), round (10 + 0 * 1 :: real)) = (- 1, 10)"
  by (simp add: curve_pixel_def get_trajectory_position_def vector_at_def float_to_int_def
      round_def ceiling_def)

subsection \<open>C4: the grid of candidate velocities\<close>

text \<open>The loops of \<open>createSearchList\<close>: what the vector holds once a loop has run.\<close>

lemma fold_update_upt:
  "n \<le> length xs \<Longrightarrow>
     length (fold (\<lambda>i v. v[i := f i]) [0..<n] xs) = length xs
     \<and> (\<forall>k<n. fold (\<lambda>i v. v[i := f i]) [0..<n] xs ! k = f k)"
proof (induction n)
  case 0
  then show ?case by simp
next
  case (Suc n)
  then show ?case by (auto simp add: nth_list_update less_Suc_eq)
qed

lemma fill_steps_nth: "k < n \<Longrightarrow> fill_steps n lo stepsize ! k = lo + real k * stepsize"
  using fold_update_upt [of n "replicate n 0" "\<lambda>i. lo + real i * stepsize"]
  by (simp add: fill_steps_def)

lemma block_index_less:
  assumes "a < A" and "v < (B::nat)"
  shows "a * B + v < A * B"
proof -
  have "a * B + v < a * B + B" using assms by simp
  also have "\<dots> = Suc a * B" by simp
  also have "\<dots> \<le> A * B" using assms by (intro mult_le_mono1) simp
  finally show ?thesis .
qed

lemma inner_loop:
  assumes "a * B + n \<le> length sl"
  shows "length (fold (set_velocity angs vels B a) [0..<n] sl) = length sl
     \<and> (\<forall>k<length sl. fold (set_velocity angs vels B a) [0..<n] sl ! k =
          (if a * B \<le> k \<and> k < a * B + n
           then (sl ! k)\<lparr>x_vel := cos (angs ! a) * vels ! (k - a * B),
                          y_vel := sin (angs ! a) * vels ! (k - a * B)\<rparr>
           else sl ! k))"
  using assms
proof (induction n)
  case 0
  then show ?case by simp
next
  case (Suc n)
  then have ih: "length (fold (set_velocity angs vels B a) [0..<n] sl) = length sl"
    and ih2: "\<And>k. k < length sl \<Longrightarrow> fold (set_velocity angs vels B a) [0..<n] sl ! k =
          (if a * B \<le> k \<and> k < a * B + n
           then (sl ! k)\<lparr>x_vel := cos (angs ! a) * vels ! (k - a * B),
                          y_vel := sin (angs ! a) * vels ! (k - a * B)\<rparr>
           else sl ! k)"
    by simp_all
  from Suc.prems have inb: "a * B + n < length sl" by simp
  define prev where "prev = fold (set_velocity angs vels B a) [0..<n] sl"
  have step: "fold (set_velocity angs vels B a) [0..<Suc n] sl
      = prev[a * B + n := (prev ! (a * B + n))
            \<lparr>x_vel := cos (angs ! a) * vels ! n, y_vel := sin (angs ! a) * vels ! n\<rparr>]"
    by (simp add: prev_def set_velocity_def)
  show ?case
    unfolding step using ih inb ih2 by (auto simp add: nth_list_update prev_def)
qed

lemma outer_loop:
  assumes "m \<le> A" and "length sl = A * B"
  shows "length (fold (\<lambda>a. fold (set_velocity angs vels B a) [0..<B]) [0..<m] sl) = A * B
     \<and> (\<forall>k<A * B. fold (\<lambda>a. fold (set_velocity angs vels B a) [0..<B]) [0..<m] sl ! k =
          (if k < m * B
           then (sl ! k)\<lparr>x_vel := cos (angs ! (k div B)) * vels ! (k mod B),
                          y_vel := sin (angs ! (k div B)) * vels ! (k mod B)\<rparr>
           else sl ! k))"
  using assms
proof (induction m)
  case 0
  then show ?case by simp
next
  case (Suc m)
  define prev where "prev = fold (\<lambda>a. fold (set_velocity angs vels B a) [0..<B]) [0..<m] sl"
  from Suc have len: "length prev = A * B"
    and ih: "\<And>k. k < A * B \<Longrightarrow> prev ! k =
          (if k < m * B
           then (sl ! k)\<lparr>x_vel := cos (angs ! (k div B)) * vels ! (k mod B),
                          y_vel := sin (angs ! (k div B)) * vels ! (k mod B)\<rparr>
           else sl ! k)"
    by (simp_all add: prev_def)
  have fits: "m * B + B \<le> length prev"
  proof -
    have "m * B + B = Suc m * B" by simp
    also have "\<dots> \<le> A * B" using Suc.prems by (intro mult_le_mono1) simp
    finally show ?thesis by (simp add: len)
  qed
  note inner = inner_loop [OF fits, of angs vels]
  have step: "fold (\<lambda>a. fold (set_velocity angs vels B a) [0..<B]) [0..<Suc m] sl
      = fold (set_velocity angs vels B m) [0..<B] prev"
    by (simp add: prev_def)
  have "fold (set_velocity angs vels B m) [0..<B] prev ! k =
          (if k < Suc m * B
           then (sl ! k)\<lparr>x_vel := cos (angs ! (k div B)) * vels ! (k mod B),
                          y_vel := sin (angs ! (k div B)) * vels ! (k mod B)\<rparr>
           else sl ! k)" if k: "k < A * B" for k
  proof (cases "m * B \<le> k \<and> k < m * B + B")
    case True
    then have d: "k div B = m"
      by (intro div_nat_eqI) (simp_all add: mult.commute)
    have r: "k mod B = k - m * B"
      using minus_div_mult_eq_mod [of k B] by (simp add: d)
    from True have nk: "\<not> k < m * B" by simp
    from inner k len True ih [OF k] nk show ?thesis
      by (simp add: d r)
  next
    case False
    with inner k len ih [OF k] show ?thesis
      by auto
  qed
  with inner len show ?case
    unfolding step by simp
qed

text \<open>
  C4: called with \<open>A\<close> angle steps and \<open>B\<close> velocity steps (two counts, not negative,
  whose product is an \<open>int\<close>), \<open>createSearchList\<close> returns; the search list has exactly
  \<open>A * B\<close> entries; and for every \<open>a < A\<close> and \<open>b < B\<close> the entry at \<open>a * B + b\<close> has
  the velocity \<open>(cos \<alpha> * v, sin \<alpha> * v)\<close> with
  \<open>\<alpha> = min_ang + a * (max_ang - min_ang) / A\<close> and
  \<open>v = min_vel + b * (max_vel - min_vel) / B\<close>. The arithmetic is that of the real
  numbers.
\<close>

theorem createSearchList_grid:
  assumes A: "0 \<le> angle_steps" and B: "0 \<le> velocity_steps"
    and fits: "angle_steps * velocity_steps < 2 ^ 31"
  shows "\<exists>ks'. createSearchList ks angle_steps velocity_steps min_ang max_ang min_vel max_vel
            = Inr ks'
       \<and> int (length (search_list ks')) = angle_steps * velocity_steps
       \<and> (\<forall>a<nat angle_steps. \<forall>b<nat velocity_steps.
            x_vel (search_list ks' ! (a * nat velocity_steps + b))
              = cos (min_ang + real a * (max_ang - min_ang) / real_of_int angle_steps)
                * (min_vel + real b * (max_vel - min_vel) / real_of_int velocity_steps)
          \<and> y_vel (search_list ks' ! (a * nat velocity_steps + b))
              = sin (min_ang + real a * (max_ang - min_ang) / real_of_int angle_steps)
                * (min_vel + real b * (max_vel - min_vel) / real_of_int velocity_steps))"
proof -
  define angs where
    "angs = fill_steps (nat angle_steps) min_ang ((max_ang - min_ang) / real_of_int angle_steps)"
  define vels where
    "vels = fill_steps (nat velocity_steps) min_vel ((max_vel - min_vel) / real_of_int velocity_steps)"
  define sl where
    "sl = fold (\<lambda>a. fold (set_velocity angs vels (nat velocity_steps) a) [0..<nat velocity_steps])
            [0..<nat angle_steps] (replicate (nat (angle_steps * velocity_steps)) zero_trajectory)"
  have cnt: "nat (angle_steps * velocity_steps) = nat angle_steps * nat velocity_steps"
    using A by (simp add: nat_mult_distrib)
  have run: "createSearchList ks angle_steps velocity_steps min_ang max_ang min_vel max_vel
      = Inr (ks\<lparr>search_list := sl\<rparr>)"
    using A B fits by (simp add: createSearchList_def Let_def sl_def angs_def vels_def)
  have loops: "length sl = nat angle_steps * nat velocity_steps
     \<and> (\<forall>k<nat angle_steps * nat velocity_steps. sl ! k =
          (if k < nat angle_steps * nat velocity_steps
           then (replicate (nat angle_steps * nat velocity_steps) zero_trajectory ! k)
                  \<lparr>x_vel := cos (angs ! (k div nat velocity_steps)) * vels ! (k mod nat velocity_steps),
                   y_vel := sin (angs ! (k div nat velocity_steps)) * vels ! (k mod nat velocity_steps)\<rparr>
           else replicate (nat angle_steps * nat velocity_steps) zero_trajectory ! k))"
    unfolding sl_def cnt
    by (rule outer_loop) simp_all
  have len: "int (length sl) = angle_steps * velocity_steps"
    using loops A B by (simp add: cnt [symmetric])
  have entry: "x_vel (sl ! (a * nat velocity_steps + b))
              = cos (min_ang + real a * (max_ang - min_ang) / real_of_int angle_steps)
                * (min_vel + real b * (max_vel - min_vel) / real_of_int velocity_steps)
          \<and> y_vel (sl ! (a * nat velocity_steps + b))
              = sin (min_ang + real a * (max_ang - min_ang) / real_of_int angle_steps)
                * (min_vel + real b * (max_vel - min_vel) / real_of_int velocity_steps)"
    if a: "a < nat angle_steps" and b: "b < nat velocity_steps" for a b
  proof -
    have k: "a * nat velocity_steps + b < nat angle_steps * nat velocity_steps"
      using a b by (rule block_index_less)
    have d: "(a * nat velocity_steps + b) div nat velocity_steps = a"
      and r: "(a * nat velocity_steps + b) mod nat velocity_steps = b"
      using b by simp_all
    have ang: "angs ! a = min_ang + real a * (max_ang - min_ang) / real_of_int angle_steps"
      using a by (simp add: angs_def fill_steps_nth)
    have vel: "vels ! b = min_vel + real b * (max_vel - min_vel) / real_of_int velocity_steps"
      using b by (simp add: vels_def fill_steps_nth)
    from loops k b have "sl ! (a * nat velocity_steps + b) =
        (replicate (nat angle_steps * nat velocity_steps) zero_trajectory ! (a * nat velocity_steps + b))
          \<lparr>x_vel := cos (angs ! a) * vels ! b, y_vel := sin (angs ! a) * vels ! b\<rparr>"
      by (simp add: d r)
    then show ?thesis
      by (simp add: ang vel)
  qed
  from run len entry show ?thesis
    by simp
qed

theorem createSearchList_grid_witness:
  "(0 :: int) \<le> 2 \<and> (0 :: int) \<le> 2 \<and> (2 :: int) * 2 < 2 ^ 31
   \<and> (\<exists>ks'. createSearchList
           \<lparr>stack_times = [], use_corr = False, bary_corrs = [], search_list = [], results = []\<rparr>
           2 2 0 1 0 4 = Inr ks'
         \<and> int (length (search_list ks')) = 4
         \<and> x_vel (search_list ks' ! 3) = cos (1 / 2) * 2
         \<and> y_vel (search_list ks' ! 3) = sin (1 / 2) * 2)"
proof -
  let ?ks0 = "\<lparr>stack_times = [], use_corr = False, bary_corrs = [], search_list = [], results = []\<rparr>"
  have h: "(0 :: int) \<le> 2" "(2 :: int) * 2 < 2 ^ 31" by simp_all
  from createSearchList_grid [OF h(1) h(1) h(2), of ?ks0 0 1 0 4]
  obtain ks' where run: "createSearchList ?ks0 2 2 0 1 0 4 = Inr ks'"
    and len: "int (length (search_list ks')) = 2 * 2"
    and all: "\<forall>a<nat 2. \<forall>b<nat 2.
            x_vel (search_list ks' ! (a * nat 2 + b))
              = cos (0 + real a * (1 - 0) / real_of_int 2) * (0 + real b * (4 - 0) / real_of_int 2)
          \<and> y_vel (search_list ks' ! (a * nat 2 + b))
              = sin (0 + real a * (1 - 0) / real_of_int 2) * (0 + real b * (4 - 0) / real_of_int 2)"
    by blast
  have "(1 :: nat) < nat 2" by simp
  from all [rule_format, OF this this]
  have "x_vel (search_list ks' ! 3) = cos (1 / 2) * 2
      \<and> y_vel (search_list ks' ! 3) = sin (1 / 2) * 2"
    by (simp add: numeral_3_eq_3)
  with run len h show ?thesis
    by auto
qed

subsection \<open>C2: the global mask\<close>

text \<open>The two counting loops of \<open>make_global_mask\<close>: neither reads out of range when
  every mask has as many pixels as \<open>counts\<close>, and each adds one to the count of a pixel
  for every image that flags it.\<close>

lemma count_pixels_loop:
  assumes "n \<le> length counts" and "n \<le> length imgMask"
    and "\<forall>v\<in>set imgMask. - (2 ^ 31) \<le> float_to_int v \<and> float_to_int v < 2 ^ 31"
  shows "\<exists>counts'. fold (count_pixel flags imgMask) [0..<n] (Inr counts) = Inr counts'
     \<and> length counts' = length counts
     \<and> (\<forall>p<length counts. counts' ! p =
           counts ! p + (if p < n \<and> flags AND float_to_int (imgMask ! p) \<noteq> 0 then 1 else 0))"
  using assms(1,2)
proof (induction n)
  case 0
  then show ?case by simp
next
  case (Suc n)
  then obtain prev where run: "fold (count_pixel flags imgMask) [0..<n] (Inr counts) = Inr prev"
    and len: "length prev = length counts"
    and val: "\<And>p. p < length counts \<Longrightarrow> prev ! p =
           counts ! p + (if p < n \<and> flags AND float_to_int (imgMask ! p) \<noteq> 0 then 1 else 0)"
    by auto
  from Suc.prems have n: "n < length counts" "n < length imgMask" by simp_all
  then have "imgMask ! n \<in> set imgMask" by simp
  with assms(3) have cast: "static_cast_int (imgMask ! n) = Inr (float_to_int (imgMask ! n))"
    by (simp add: static_cast_int_def)
  have step: "fold (count_pixel flags imgMask) [0..<Suc n] (Inr counts)
      = Inr (if flags AND float_to_int (imgMask ! n) \<noteq> 0 then prev[n := prev ! n + 1] else prev)"
    using n by (simp add: run count_pixel_def vector_at_def cast)
  show ?case
    unfolding step using len val n by (auto simp add: nth_list_update less_Suc_eq)
qed

lemma count_images_loop:
  assumes "\<forall>img\<in>set imgs. length (pixels (mask img)) = length counts
      \<and> (\<forall>v\<in>set (pixels (mask img)). - (2 ^ 31) \<le> float_to_int v \<and> float_to_int v < 2 ^ 31)"
  shows "\<exists>counts'. fold (count_image flags (length counts)) imgs (Inr counts) = Inr counts'
     \<and> length counts' = length counts
     \<and> (\<forall>p<length counts. counts' ! p =
           counts ! p + int (length (filter (flagged flags p) imgs)))"
  using assms
proof (induction imgs arbitrary: counts)
  case Nil
  then show ?case by simp
next
  case (Cons img imgs)
  from Cons.prems have shape: "length (pixels (mask img)) = length counts"
    and ints: "\<forall>v\<in>set (pixels (mask img)). - (2 ^ 31) \<le> float_to_int v \<and> float_to_int v < 2 ^ 31"
    by simp_all
  from count_pixels_loop [of "length counts" counts "pixels (mask img)" flags] shape ints
  obtain mid where run: "count_image flags (length counts) img (Inr counts) = Inr mid"
    and len: "length mid = length counts"
    and val: "\<And>p. p < length counts \<Longrightarrow> mid ! p =
           counts ! p + (if flagged flags p img then 1 else 0)"
    by (auto simp add: count_image_def flagged_def)
  from Cons.prems len have "\<forall>img\<in>set imgs. length (pixels (mask img)) = length mid
      \<and> (\<forall>v\<in>set (pixels (mask img)). - (2 ^ 31) \<le> float_to_int v \<and> float_to_int v < 2 ^ 31)"
    by simp
  from Cons.IH [OF this]
  obtain fin where run2: "fold (count_image flags (length mid)) imgs (Inr mid) = Inr fin"
    and len2: "length fin = length mid"
    and val2: "\<And>p. p < length mid \<Longrightarrow> fin ! p =
           mid ! p + int (length (filter (flagged flags p) imgs))"
    by auto
  show ?case
    using run run2 len len2 val val2 by simp
qed

text \<open>
  C2: for every stack, every \<open>flags\<close> and every \<open>threshold\<close>, \<open>make_global_mask\<close>
  returns an image of the stack's width and height whose pixel \<open>p\<close> is \<open>1\<close> when the
  number of images whose mask at \<open>p\<close> has a bit in common with \<open>flags\<close> is at least
  \<open>threshold\<close>, and \<open>0\<close> otherwise. The stack is one of the spec's data model: every
  mask has the stack's number of pixels, and holds integers that fit an \<open>int\<close>.
\<close>

theorem make_global_mask_threshold:
  assumes "\<forall>img\<in>set (images s). length (pixels (mask img)) = get_npixels s
      \<and> (\<forall>v\<in>set (pixels (mask img)). - (2 ^ 31) \<le> float_to_int v \<and> float_to_int v < 2 ^ 31)"
  shows "\<exists>g. make_global_mask s flags threshold = Inr g
       \<and> width g = get_width s \<and> height g = get_height s
       \<and> length (pixels g) = get_npixels s
       \<and> (\<forall>p<get_npixels s.
            pixels g ! p = (if threshold \<le> spec_masked_count s flags p then 1 else 0))"
proof -
  define npixels where "npixels = get_npixels s"
  have area: "get_width s * get_height s = npixels"
    by (simp add: npixels_def get_width_def get_height_def get_npixels_def
        li_get_width_def li_get_height_def li_get_npixels_def)
  from assms have "\<forall>img\<in>set (images s).
      length (pixels (mask img)) = length (replicate npixels (0 :: int))
      \<and> (\<forall>v\<in>set (pixels (mask img)). - (2 ^ 31) \<le> float_to_int v \<and> float_to_int v < 2 ^ 31)"
    by (simp add: npixels_def)
  from count_images_loop [OF this, of flags]
  obtain counts where run: "fold (count_image flags npixels) (images s) (Inr (replicate npixels 0))
      = Inr counts"
    and len: "length counts = npixels"
    and val: "\<And>p. p < npixels \<Longrightarrow> counts ! p = spec_masked_count s flags p"
    by (auto simp add: spec_masked_count_def)
  define g where "g = (RawImage_init (get_width s) (get_height s) 0)
      \<lparr>pixels := fold (\<lambda>p global_m. global_m[p := (if counts ! p < threshold then 0 else 1)])
                   [0..<npixels] (pixels (RawImage_init (get_width s) (get_height s) 0))\<rparr>"
  have res: "make_global_mask s flags threshold = Inr g"
    by (simp add: make_global_mask_def Let_def npixels_def [symmetric] run g_def)
  have "npixels \<le> length (pixels (RawImage_init (get_width s) (get_height s) 0))"
    by (simp add: RawImage_init_def area)
  from fold_update_upt [OF this, of "\<lambda>p. if counts ! p < threshold then 0 else 1"]
  have glen: "length (pixels g) = npixels"
    and gval: "\<And>p. p < npixels \<Longrightarrow> pixels g ! p = (if counts ! p < threshold then 0 else 1)"
    by (simp_all add: g_def RawImage_init_def area)
  have shape: "width g = get_width s" "height g = get_height s"
    by (simp_all add: g_def RawImage_init_def)
  have "pixels g ! p = (if threshold \<le> spec_masked_count s flags p then 1 else 0)"
    if "p < npixels" for p
    using gval [OF that] val [OF that] by simp
  with res glen shape show ?thesis
    unfolding npixels_def by blast
qed

theorem make_global_mask_threshold_witness:
  "\<exists>g. make_global_mask \<lparr>images = [\<lparr>science = \<lparr>width = 2, height = 1, pixels = [5, 6]\<rparr>, variance = \<lparr>width = 2, height = 1, pixels = [1, 1]\<rparr>, mask = \<lparr>width = 2, height = 1, pixels = [1, 0]\<rparr>, obstime = 0\<rparr>, \<lparr>science = \<lparr>width = 2, height = 1, pixels = [5, 6]\<rparr>, variance = \<lparr>width = 2, height = 1, pixels = [1, 1]\<rparr>, mask = \<lparr>width = 2, height = 1, pixels = [3, 2]\<rparr>, obstime = 1\<rparr>, \<lparr>science = \<lparr>width = 2, height = 1, pixels = [5, 6]\<rparr>, variance = \<lparr>width = 2, height = 1, pixels = [1, 1]\<rparr>, mask = \<lparr>width = 2, height = 1, pixels = [0, 1]\<rparr>, obstime = 2\<rparr>]\<rparr> 1 2 = Inr g
     \<and> width g = 2 \<and> height g = 1 \<and> pixels g ! 0 = 1 \<and> pixels g ! 1 = 0"
proof -
  let ?s = "\<lparr>images = [\<lparr>science = \<lparr>width = 2, height = 1, pixels = [5, 6]\<rparr>, variance = \<lparr>width = 2, height = 1, pixels = [1, 1]\<rparr>, mask = \<lparr>width = 2, height = 1, pixels = [1, 0]\<rparr>, obstime = 0\<rparr>, \<lparr>science = \<lparr>width = 2, height = 1, pixels = [5, 6]\<rparr>, variance = \<lparr>width = 2, height = 1, pixels = [1, 1]\<rparr>, mask = \<lparr>width = 2, height = 1, pixels = [3, 2]\<rparr>, obstime = 1\<rparr>, \<lparr>science = \<lparr>width = 2, height = 1, pixels = [5, 6]\<rparr>, variance = \<lparr>width = 2, height = 1, pixels = [1, 1]\<rparr>, mask = \<lparr>width = 2, height = 1, pixels = [0, 1]\<rparr>, obstime = 2\<rparr>]\<rparr>"
  have np: "get_npixels ?s = 2"
    by (simp add: get_npixels_def li_get_npixels_def)
  have h: "\<forall>img\<in>set (images ?s). length (pixels (mask img)) = get_npixels ?s
      \<and> (\<forall>v\<in>set (pixels (mask img)). - (2 ^ 31) \<le> float_to_int v \<and> float_to_int v < 2 ^ 31)"
    by (simp add: get_npixels_def li_get_npixels_def float_to_int_def)
  from make_global_mask_threshold [OF h, of 1 2]
  obtain g where run: "make_global_mask ?s 1 2 = Inr g"
    and shape: "width g = get_width ?s" "height g = get_height ?s"
    and val: "\<forall>p<get_npixels ?s. pixels g ! p = (if 2 \<le> spec_masked_count ?s 1 p then 1 else 0)"
    by blast
  have c0: "spec_masked_count ?s 1 0 = 2" and c1: "spec_masked_count ?s 1 1 = 1"
    by (simp_all add: spec_masked_count_def flagged_def float_to_int_def)
  from np have "(0 :: nat) < get_npixels ?s" "(1 :: nat) < get_npixels ?s"
    by simp_all
  with val have "pixels g ! 0 = (if 2 \<le> spec_masked_count ?s 1 0 then 1 else 0)"
    and "pixels g ! 1 = (if 2 \<le> spec_masked_count ?s 1 1 then 1 else 0)"
    by blast+
  then have "pixels g ! 0 = 1" "pixels g ! 1 = 0"
    by (simp_all only: c0 c1) simp_all
  with run shape show ?thesis
    by (simp add: get_width_def get_height_def li_get_width_def li_get_height_def)
qed

subsection \<open>C5: the stamp filter\<close>

lemma fold_add_nth:
  "n \<le> length xs \<Longrightarrow>
     fold (\<lambda>p acc. acc + xs ! p) [0..<n] (a :: real) = a + sum_list (take n xs)"
proof (induction n)
  case 0
  then show ?case by simp
next
  case (Suc n)
  then show ?case by (simp add: take_Suc_conv_app_nth)
qed

lemma sum_pixels_all:
  "int (length pix) = stamp_ppi \<Longrightarrow> sum_pixels pix stamp_ppi = Inr (sum_list pix)"
  using fold_add_nth [of "length pix" pix 0] by (auto simp add: sum_pixels_def)

lemma peak_index_in_stamp:
  assumes "0 \<le> i" "i < w" "0 \<le> j" "j < (w :: int)"
  shows "0 \<le> j * w + i \<and> j * w + i < w * w"
proof -
  have "j * w + i < j * w + w" using assms by simp
  also have "\<dots> = (j + 1) * w" by (simp add: algebra_simps)
  also have "\<dots> \<le> w * w" using assms by (intro mult_right_mono) simp_all
  finally show ?thesis using assms by simp
qed

lemma filter_stamp_value:
  assumes size: "int (length (pixels img)) = (2 * radius params + 1) * (2 * radius params + 1)"
    and peak: "0 \<le> idx_i (find_peak ext img True)"
      "idx_i (find_peak ext img True) < 2 * radius params + 1"
      "0 \<le> idx_j (find_peak ext img True)"
      "idx_j (find_peak ext img True) < 2 * radius params + 1"
  shows "filter_stamp ext img params =
     Inr ((real_of_int \<bar>idx_i (find_peak ext img True) - radius params\<bar> \<ge> peak_offset_x params
            \<or> real_of_int \<bar>idx_j (find_peak ext img True) - radius params\<bar> \<ge> peak_offset_y params)
          \<or> (center_thresh params > 0
               \<and> ratio_below
                    (pixels img ! nat (idx_j (find_peak ext img True) * (2 * radius params + 1)
                                        + idx_i (find_peak ext img True)))
                    (sum_list (pixels img)) (center_thresh params))
          \<or> (\<bar>m01 (find_central_moments ext img)\<bar> \<ge> m01_limit params
               \<or> \<bar>m10 (find_central_moments ext img)\<bar> \<ge> m10_limit params
               \<or> \<bar>m11 (find_central_moments ext img)\<bar> \<ge> m11_limit params
               \<or> m02 (find_central_moments ext img) \<ge> m02_limit params
               \<or> m20 (find_central_moments ext img) \<ge> m20_limit params))"
proof -
  note ix = peak_index_in_stamp [OF peak]
  have rd: "vector_at (pixels img)
        (idx_j (find_peak ext img True) * (2 * radius params + 1) + idx_i (find_peak ext img True))
      = Inr (pixels img ! nat (idx_j (find_peak ext img True) * (2 * radius params + 1)
                                 + idx_i (find_peak ext img True)))"
    using ix size by (simp add: vector_at_def)
  have sm: "sum_pixels (pixels img) ((2 * radius params + 1) * (2 * radius params + 1))
      = Inr (sum_list (pixels img))"
    using size by (rule sum_pixels_all)
  show ?thesis
    unfolding filter_stamp_def Let_def rd sm
    by (simp split: bool.splits)
qed

lemma get_coadded_stamps_cpu_loop_results:
  "get_coadded_stamps_cpu_loop ext stack t_array use_index_vect params idxs = Inr out \<Longrightarrow>
     length out = length idxs
     \<and> (\<forall>k<length idxs. idxs ! k < length use_index_vect
           \<and> filtered_coadd ext stack (t_array ! (idxs ! k)) (use_index_vect ! (idxs ! k)) params
               = Inr (out ! k))"
proof (induction idxs arbitrary: out)
  case Nil
  then show ?case by simp
next
  case (Cons i rest)
  from Cons.prems obtain stamp stamps where
    i: "i < length use_index_vect"
    and f: "filtered_coadd ext stack (t_array ! i) (use_index_vect ! i) params = Inr stamp"
    and r: "get_coadded_stamps_cpu_loop ext stack t_array use_index_vect params rest = Inr stamps"
    and out: "out = stamp # stamps"
    by (auto simp add: vector_at_def split: sum.splits if_splits)
  from Cons.IH [OF r] i f show ?case
    unfolding out by (auto simp add: nth_Cons split: nat.splits)
qed

text \<open>
  C5 as the code has it. Take a stamp of \<open>2 r + 1\<close> by \<open>2 r + 1\<close> pixels whose peak is
  one of its pixels. \<open>filter_stamp\<close> rejects it exactly when (1) the peak's offset from
  the centre is \<^emph>\<open>at least\<close> \<open>peak_offset_x\<close> in \<open>i\<close> or \<open>peak_offset_y\<close> in \<open>j\<close>, or
  (2) \<open>center_thresh > 0\<close> and the peak's value divided by the sum of all pixels is below
  \<open>center_thresh\<close>, or (3) one of \<open>|m01|\<close>, \<open>|m10|\<close>, \<open>|m11|\<close>, \<open>m02\<close>, \<open>m20\<close> is at
  least its limit. With filtering enabled, every co-added stamp that \<open>filter_stamp\<close>
  rejects is replaced in the output of \<open>get_coadded_stamps_cpu\<close> by a 1 by 1 image whose
  pixel is \<open>NO_DATA\<close>.
\<close>

theorem filter_stamp_rejects_iff:
  assumes "int (length (pixels img)) = (2 * radius params + 1) * (2 * radius params + 1)"
    and "0 \<le> idx_i (find_peak ext img True)"
    and "idx_i (find_peak ext img True) < 2 * radius params + 1"
    and "0 \<le> idx_j (find_peak ext img True)"
    and "idx_j (find_peak ext img True) < 2 * radius params + 1"
  shows "filter_stamp ext img params =
     Inr ((real_of_int \<bar>idx_i (find_peak ext img True) - radius params\<bar> \<ge> peak_offset_x params
            \<or> real_of_int \<bar>idx_j (find_peak ext img True) - radius params\<bar> \<ge> peak_offset_y params)
          \<or> (center_thresh params > 0
               \<and> ratio_below
                    (pixels img ! nat (idx_j (find_peak ext img True) * (2 * radius params + 1)
                                        + idx_i (find_peak ext img True)))
                    (sum_list (pixels img)) (center_thresh params))
          \<or> (\<bar>m01 (find_central_moments ext img)\<bar> \<ge> m01_limit params
               \<or> \<bar>m10 (find_central_moments ext img)\<bar> \<ge> m10_limit params
               \<or> \<bar>m11 (find_central_moments ext img)\<bar> \<ge> m11_limit params
               \<or> m02 (find_central_moments ext img) \<ge> m02_limit params
               \<or> m20 (find_central_moments ext img) \<ge> m20_limit params))
   \<and> (\<forall>stack t_array use_index_vect out.
         do_filtering params
         \<and> get_coadded_stamps_cpu ext stack t_array use_index_vect params = Inr out \<longrightarrow>
           length out = length t_array
           \<and> (\<forall>k<length t_array. \<forall>coadd.
                 coadd_stamp ext stack (t_array ! k) (use_index_vect ! k) params = Inr coadd
                 \<and> filter_stamp ext coadd params = Inr True \<longrightarrow>
                   out ! k = \<lparr>width = 1, height = 1, pixels = [NO_DATA ext]\<rparr>))"
proof -
  have replaced: "length out = length t_array
      \<and> (\<forall>k<length t_array. \<forall>coadd.
            coadd_stamp ext stack (t_array ! k) (use_index_vect ! k) params = Inr coadd
            \<and> filter_stamp ext coadd params = Inr True \<longrightarrow>
              out ! k = \<lparr>width = 1, height = 1, pixels = [NO_DATA ext]\<rparr>)"
    if on: "do_filtering params"
      and run: "get_coadded_stamps_cpu ext stack t_array use_index_vect params = Inr out"
    for stack t_array use_index_vect out
  proof -
    from run have loop: "length out = length t_array
        \<and> (\<forall>k<length t_array. 
              filtered_coadd ext stack (t_array ! k) (use_index_vect ! k) params = Inr (out ! k))"
      using get_coadded_stamps_cpu_loop_results
        [of ext stack t_array use_index_vect params "[0..<length t_array]" out]
      by (simp add: get_coadded_stamps_cpu_def)
    have "out ! k = \<lparr>width = 1, height = 1, pixels = [NO_DATA ext]\<rparr>"
      if k: "k < length t_array"
        and c: "coadd_stamp ext stack (t_array ! k) (use_index_vect ! k) params = Inr coadd"
        and f: "filter_stamp ext coadd params = Inr True"
      for k coadd
    proof -
      from loop k
      have "filtered_coadd ext stack (t_array ! k) (use_index_vect ! k) params = Inr (out ! k)"
        by simp
      then show ?thesis
        using on c f by (simp add: filtered_coadd_def RawImage_init_def)
    qed
    with loop show ?thesis by blast
  qed
  from filter_stamp_value [OF assms] replaced show ?thesis
    by blast
qed

theorem filter_stamp_rejects_iff_witness:
  "filter_stamp
     \<lparr>NO_DATA = - 9999.99,
      find_peak = (\<lambda>img furthest. \<lparr>idx_i = 1, idx_j = 1\<rparr>),
      find_central_moments = (\<lambda>img. \<lparr>m00 = 1, m01 = 0, m10 = 0, m11 = 0, m02 = 1 / 4, m20 = 1 / 4\<rparr>),
      create_stamp = (\<lambda>img pos rad keep. img),
      create_median_image = hd, create_mean_image = hd, create_summed_image = hd,
      get_x_pos = (\<lambda>t time. real_of_int (x_pix t) + x_vel t * time),
      get_y_pos = (\<lambda>t time. real_of_int (y_pix t) + y_vel t * time),
      get_coadded_stamps_gpu = (\<lambda>stack t_array use_index_vect params. Inl (Runtime_error ''Non-GPU co-adds is not implemented.''))\<rparr>
     \<lparr>width = 3, height = 3, pixels = [0, 1, 0, 1, 4, 1, 0, 1, 0]\<rparr>
     \<lparr>radius = 1, stamp_type = STAMP_SUM, do_filtering = True, center_thresh = 0.6,
      peak_offset_x = 2, peak_offset_y = 2,
      m01_limit = 10, m10_limit = 10, m11_limit = 10, m02_limit = 10, m20_limit = 10\<rparr> = Inr True
   \<and> get_coadded_stamps_cpu
     \<lparr>NO_DATA = - 9999.99,
      find_peak = (\<lambda>img furthest. \<lparr>idx_i = 1, idx_j = 1\<rparr>),
      find_central_moments = (\<lambda>img. \<lparr>m00 = 1, m01 = 0, m10 = 0, m11 = 0, m02 = 1 / 4, m20 = 1 / 4\<rparr>),
      create_stamp = (\<lambda>img pos rad keep. img),
      create_median_image = hd, create_mean_image = hd, create_summed_image = hd,
      get_x_pos = (\<lambda>t time. real_of_int (x_pix t) + x_vel t * time),
      get_y_pos = (\<lambda>t time. real_of_int (y_pix t) + y_vel t * time),
      get_coadded_stamps_gpu = (\<lambda>stack t_array use_index_vect params. Inl (Runtime_error ''Non-GPU co-adds is not implemented.''))\<rparr>
     \<lparr>images = [\<lparr>science = \<lparr>width = 3, height = 3, pixels = [0, 1, 0, 1, 4, 1, 0, 1, 0]\<rparr>,
        variance = \<lparr>width = 3, height = 3, pixels = [1, 1, 1, 1, 1, 1, 1, 1, 1]\<rparr>,
        mask = \<lparr>width = 3, height = 3, pixels = [0, 0, 0, 0, 0, 0, 0, 0, 0]\<rparr>, obstime = 0\<rparr>]\<rparr>
     [\<lparr>x_pix = 1, y_pix = 1, x_vel = 0, y_vel = 0, lh = 0, flux = 0, obs_count = 0\<rparr>] [[]]
     \<lparr>radius = 1, stamp_type = STAMP_SUM, do_filtering = True, center_thresh = 0.6,
      peak_offset_x = 2, peak_offset_y = 2,
      m01_limit = 10, m10_limit = 10, m11_limit = 10, m02_limit = 10, m20_limit = 10\<rparr>
   = Inr [\<lparr>width = 1, height = 1, pixels = [- 9999.99]\<rparr>]"
proof -
  let ?ext = "\<lparr>NO_DATA = - 9999.99,
      find_peak = (\<lambda>img furthest. \<lparr>idx_i = 1, idx_j = 1\<rparr>),
      find_central_moments = (\<lambda>img. \<lparr>m00 = 1, m01 = 0, m10 = 0, m11 = 0, m02 = 1 / 4, m20 = 1 / 4\<rparr>),
      create_stamp = (\<lambda>img pos rad keep. img),
      create_median_image = hd, create_mean_image = hd, create_summed_image = hd,
      get_x_pos = (\<lambda>t time. real_of_int (x_pix t) + x_vel t * time),
      get_y_pos = (\<lambda>t time. real_of_int (y_pix t) + y_vel t * time),
      get_coadded_stamps_gpu = (\<lambda>stack t_array use_index_vect params. Inl (Runtime_error ''Non-GPU co-adds is not implemented.''))\<rparr>"
  let ?img = "\<lparr>width = 3, height = 3, pixels = [0, 1, 0, 1, 4, 1, 0, 1, 0]\<rparr>"
  let ?params = "\<lparr>radius = 1, stamp_type = STAMP_SUM, do_filtering = True, center_thresh = 0.6,
      peak_offset_x = 2, peak_offset_y = 2,
      m01_limit = 10, m10_limit = 10, m11_limit = 10, m02_limit = 10, m20_limit = 10\<rparr>"
  have h: "int (length (pixels ?img)) = (2 * radius ?params + 1) * (2 * radius ?params + 1)"
    "0 \<le> idx_i (find_peak ?ext ?img True)"
    "idx_i (find_peak ?ext ?img True) < 2 * radius ?params + 1"
    "0 \<le> idx_j (find_peak ?ext ?img True)"
    "idx_j (find_peak ?ext ?img True) < 2 * radius ?params + 1"
    by simp_all
  from filter_stamp_rejects_iff [OF h, THEN conjunct1]
  have rejected: "filter_stamp ?ext ?img ?params = Inr True"
    by (simp add: ratio_below_def)
  have replaced: "get_coadded_stamps_cpu
     \<lparr>NO_DATA = - 9999.99,
      find_peak = (\<lambda>img furthest. \<lparr>idx_i = 1, idx_j = 1\<rparr>),
      find_central_moments = (\<lambda>img. \<lparr>m00 = 1, m01 = 0, m10 = 0, m11 = 0, m02 = 1 / 4, m20 = 1 / 4\<rparr>),
      create_stamp = (\<lambda>img pos rad keep. img),
      create_median_image = hd, create_mean_image = hd, create_summed_image = hd,
      get_x_pos = (\<lambda>t time. real_of_int (x_pix t) + x_vel t * time),
      get_y_pos = (\<lambda>t time. real_of_int (y_pix t) + y_vel t * time),
      get_coadded_stamps_gpu = (\<lambda>stack t_array use_index_vect params. Inl (Runtime_error ''Non-GPU co-adds is not implemented.''))\<rparr>
     \<lparr>images = [\<lparr>science = \<lparr>width = 3, height = 3, pixels = [0, 1, 0, 1, 4, 1, 0, 1, 0]\<rparr>,
        variance = \<lparr>width = 3, height = 3, pixels = [1, 1, 1, 1, 1, 1, 1, 1, 1]\<rparr>,
        mask = \<lparr>width = 3, height = 3, pixels = [0, 0, 0, 0, 0, 0, 0, 0, 0]\<rparr>, obstime = 0\<rparr>]\<rparr>
     [\<lparr>x_pix = 1, y_pix = 1, x_vel = 0, y_vel = 0, lh = 0, flux = 0, obs_count = 0\<rparr>] [[]]
     \<lparr>radius = 1, stamp_type = STAMP_SUM, do_filtering = True, center_thresh = 0.6,
      peak_offset_x = 2, peak_offset_y = 2,
      m01_limit = 10, m10_limit = 10, m11_limit = 10, m02_limit = 10, m20_limit = 10\<rparr>
   = Inr [\<lparr>width = 1, height = 1, pixels = [- 9999.99]\<rparr>]"
  by (simp add: get_coadded_stamps_cpu_def vector_at_def filtered_coadd_def coadd_stamp_def
      create_stamps_def img_count_def get_zeroed_time_def get_single_image_def index_guard_def
      filter_stamp_def sum_pixels_all ratio_below_def RawImage_init_def)
  from rejected replaced show ?thesis
    by (rule conjI)
qed

text \<open>
  C5 as stated rejects on the peak's position only when the offset \<^emph>\<open>exceeds\<close> the limit.
  A 3 by 3 stamp whose only lit pixel, the peak, is one pixel to the side of the centre,
  with \<open>peak_offset_x = peak_offset_y = 1\<close>, no test of the central flux and moment
  limits far above the moments of the stamp: the offset equals the limit, the code
  rejects the stamp, the rule of the spec does not.
\<close>

theorem filter_stamp_offset_counterexample:
  "filter_stamp
     \<lparr>NO_DATA = - 9999.99,
      find_peak = (\<lambda>img furthest. \<lparr>idx_i = 2, idx_j = 1\<rparr>),
      find_central_moments = (\<lambda>img. \<lparr>m00 = 1, m01 = 0, m10 = 1, m11 = 0, m02 = 0, m20 = 1\<rparr>),
      create_stamp = (\<lambda>img pos rad keep. img),
      create_median_image = hd, create_mean_image = hd, create_summed_image = hd,
      get_x_pos = (\<lambda>t time. real_of_int (x_pix t) + x_vel t * time),
      get_y_pos = (\<lambda>t time. real_of_int (y_pix t) + y_vel t * time),
      get_coadded_stamps_gpu = (\<lambda>stack t_array use_index_vect params. Inl (Runtime_error ''Non-GPU co-adds is not implemented.''))\<rparr>
     \<lparr>width = 3, height = 3, pixels = [0, 0, 0, 0, 0, 1, 0, 0, 0]\<rparr>
     \<lparr>radius = 1, stamp_type = STAMP_SUM, do_filtering = True, center_thresh = 0,
      peak_offset_x = 1, peak_offset_y = 1,
      m01_limit = 10, m10_limit = 10, m11_limit = 10, m02_limit = 10, m20_limit = 10\<rparr> = Inr True
   \<and> \<not> spec_rejects
     \<lparr>NO_DATA = - 9999.99,
      find_peak = (\<lambda>img furthest. \<lparr>idx_i = 2, idx_j = 1\<rparr>),
      find_central_moments = (\<lambda>img. \<lparr>m00 = 1, m01 = 0, m10 = 1, m11 = 0, m02 = 0, m20 = 1\<rparr>),
      create_stamp = (\<lambda>img pos rad keep. img),
      create_median_image = hd, create_mean_image = hd, create_summed_image = hd,
      get_x_pos = (\<lambda>t time. real_of_int (x_pix t) + x_vel t * time),
      get_y_pos = (\<lambda>t time. real_of_int (y_pix t) + y_vel t * time),
      get_coadded_stamps_gpu = (\<lambda>stack t_array use_index_vect params. Inl (Runtime_error ''Non-GPU co-adds is not implemented.''))\<rparr>
     \<lparr>width = 3, height = 3, pixels = [0, 0, 0, 0, 0, 1, 0, 0, 0]\<rparr>
     \<lparr>radius = 1, stamp_type = STAMP_SUM, do_filtering = True, center_thresh = 0,
      peak_offset_x = 1, peak_offset_y = 1,
      m01_limit = 10, m10_limit = 10, m11_limit = 10, m02_limit = 10, m20_limit = 10\<rparr>"
  by (simp add: filter_stamp_def spec_rejects_def)

subsection \<open>C9: co-adds requested on the accelerator in a build without one\<close>

text \<open>
  C9 as the code has it. In a build without accelerator support a call with
  \<open>use_gpu = true\<close> raises nothing of its own: it logs one warning and then is the CPU
  path. It returns the vector that the CPU path returns, or fails with the error that the
  CPU path fails with; but for the warning the calls with \<open>use_gpu = true\<close> and
  \<open>use_gpu = false\<close> are the same.
\<close>

theorem get_coadded_stamps_falls_back_to_cpu:
  "get_coadded_stamps False ext stack t_array use_index_vect params True
     = ([Log_warning ''GPU is not enabled. Performing co-adds on the CPU.''],
        get_coadded_stamps_cpu ext stack t_array use_index_vect params)
   \<and> snd (get_coadded_stamps False ext stack t_array use_index_vect params True)
     = snd (get_coadded_stamps False ext stack t_array use_index_vect params False)"
  by (simp add: get_coadded_stamps_def)

text \<open>
  C9 as stated says that the call with \<open>use_gpu = true\<close> does not raise, whatever the
  arguments. A stack of one image and a \<open>use_index\<close> vector of two entries: the CPU path
  throws the error of \<open>create_stamps\<close>, and so does the call.
\<close>

theorem get_coadded_stamps_fallback_counterexample:
  "snd (get_coadded_stamps False
     \<lparr>NO_DATA = - 9999.99,
      find_peak = (\<lambda>img furthest. \<lparr>idx_i = 1, idx_j = 1\<rparr>),
      find_central_moments = (\<lambda>img. \<lparr>m00 = 1, m01 = 0, m10 = 0, m11 = 0, m02 = 1 / 4, m20 = 1 / 4\<rparr>),
      create_stamp = (\<lambda>img pos rad keep. img),
      create_median_image = hd, create_mean_image = hd, create_summed_image = hd,
      get_x_pos = (\<lambda>t time. real_of_int (x_pix t) + x_vel t * time),
      get_y_pos = (\<lambda>t time. real_of_int (y_pix t) + y_vel t * time),
      get_coadded_stamps_gpu = (\<lambda>stack t_array use_index_vect params. Inl (Runtime_error ''Non-GPU co-adds is not implemented.''))\<rparr>
     \<lparr>images = [\<lparr>science = \<lparr>width = 3, height = 3, pixels = [0, 1, 0, 1, 4, 1, 0, 1, 0]\<rparr>,
        variance = \<lparr>width = 3, height = 3, pixels = [1, 1, 1, 1, 1, 1, 1, 1, 1]\<rparr>,
        mask = \<lparr>width = 3, height = 3, pixels = [0, 0, 0, 0, 0, 0, 0, 0, 0]\<rparr>, obstime = 0\<rparr>]\<rparr>
     [\<lparr>x_pix = 1, y_pix = 1, x_vel = 0, y_vel = 0, lh = 0, flux = 0, obs_count = 0\<rparr>] [[True, False]]
     \<lparr>radius = 1, stamp_type = STAMP_SUM, do_filtering = True, center_thresh = 0.6,
      peak_offset_x = 2, peak_offset_y = 2,
      m01_limit = 10, m10_limit = 10, m11_limit = 10, m02_limit = 10, m20_limit = 10\<rparr> True)
   = Inl (Runtime_error ''Wrong size use_index passed into create_stamps()'')"
  by (simp add: get_coadded_stamps_def get_coadded_stamps_cpu_def vector_at_def
      filtered_coadd_def coadd_stamp_def create_stamps_def img_count_def)

end
